theory Spec2Isabelle
  imports Complex_Main "HOL-Library.AList"
begin

section \<open>The OhioT1DM loader: data model\<close>

text \<open>
  The loader \<^verbatim>\<open>load_ohiot1dm_xml\<close> of \<^verbatim>\<open>src/load_xml_data.py\<close> reads an XML document
  with \<^verbatim>\<open>xml.etree.ElementTree\<close>, collects one list of dictionaries per event
  category, turns each list into a \<^verbatim>\<open>pandas.DataFrame\<close>, converts the timestamp
  columns of the non-empty frames and returns a dictionary of the six frames.

  An element of the tree carries its tag, its attribute dictionary and its children in
  document order. The attribute dictionary is an association list read with
  \<open>map_of\<close>.
\<close>

datatype element = Element (tag: string) (attrib: "(string \<times> string) list") (children: "element list")

text \<open>The exceptions that can leave the loader.\<close>

datatype error = OSError | ParseError | TypeError | ValueError | KeyError

text \<open>
  Sequencing of two statements: an exception raised by the first leaves the function,
  otherwise the rest runs with the value of the first.
\<close>

definition and_then :: "error + 'a \<Rightarrow> ('a \<Rightarrow> error + 'b) \<Rightarrow> error + 'b" where
  "and_then m f = (case m of Inl err \<Rightarrow> Inl err | Inr x \<Rightarrow> f x)"

text \<open>
  The values that occur in a cell of a frame: \<^verbatim>\<open>None\<close>, a string, a float, a pandas
  timestamp, or the missing timestamp \<^verbatim>\<open>NaT\<close>. The type \<open>'f\<close> of floats and the
  type \<open>'t\<close> of timestamps belong to the two library parsers, which the loader
  receives as parameters below.
\<close>

datatype ('f, 't) pyval = PyNone | PyStr string | PyFloat 'f | Timestamp 't | NaT

text \<open>
  A record is a dictionary with its keys in insertion order; a frame built from a list
  of records is the list of its rows.
\<close>

type_synonym ('f, 't) row = "(string \<times> ('f, 't) pyval) list"
type_synonym ('f, 't) dataframe = "('f, 't) row list"

section \<open>The library calls\<close>

text \<open>\<^verbatim>\<open>root.find(name)\<close>: the first direct child with that tag, or \<^verbatim>\<open>None\<close>.\<close>

fun find_first :: "element list \<Rightarrow> string \<Rightarrow> element option" where
  "find_first [] name = None"
| "find_first (c # cs) name = (if tag c = name then Some c else find_first cs name)"

definition find_child :: "element \<Rightarrow> string \<Rightarrow> element option" where
  "find_child e name = find_first (children e) name"

text \<open>\<^verbatim>\<open>section.findall(name)\<close>: every direct child with that tag, in document order.\<close>

definition findall :: "element \<Rightarrow> string \<Rightarrow> element list" where
  "findall e name = filter (\<lambda>c. tag c = name) (children e)"

text \<open>\<^verbatim>\<open>event.get(key)\<close>: the text of the attribute, or \<^verbatim>\<open>None\<close>.\<close>

definition get :: "element \<Rightarrow> string \<Rightarrow> string option" where
  "get e key = map_of (attrib e) key"

text \<open>The Python value of what \<^verbatim>\<open>event.get\<close> returned.\<close>

definition pyval_of :: "string option \<Rightarrow> ('f, 't) pyval" where
  "pyval_of x = (case x of None \<Rightarrow> PyNone | Some s \<Rightarrow> PyStr s)"

text \<open>
  \<^verbatim>\<open>float(x)\<close> for what \<^verbatim>\<open>event.get\<close> returned: \<^verbatim>\<open>float(None)\<close> raises
  \<^verbatim>\<open>TypeError\<close>; on a string the built-in parser \<open>py_float\<close> decides, and its
  refusal is \<^verbatim>\<open>ValueError\<close>.
\<close>

definition float :: "(string \<Rightarrow> 'f option) \<Rightarrow> string option \<Rightarrow> error + 'f" where
  "float py_float x =
     (case x of
        None \<Rightarrow> Inl TypeError
      | Some s \<Rightarrow> (case py_float s of None \<Rightarrow> Inl ValueError | Some v \<Rightarrow> Inr v))"

text \<open>\<^verbatim>\<open>pd.DataFrame(records)\<close> and \<^verbatim>\<open>df.empty\<close>.\<close>

definition DataFrame :: "('f, 't) row list \<Rightarrow> ('f, 't) dataframe" where
  "DataFrame records = records"

definition empty :: "('f, 't) dataframe \<Rightarrow> bool" where
  "empty df = (df = [])"

text \<open>
  The columns of a frame built from a list of records are the keys of the records; the
  records of one extraction block all have the same keys, so the first record names
  them. A frame built from the empty list has no column at all.
\<close>

definition columns :: "('f, 't) dataframe \<Rightarrow> string list" where
  "columns df = (case df of [] \<Rightarrow> [] | r # rs \<Rightarrow> map fst r)"

text \<open>
  \<^verbatim>\<open>df[col]\<close>: the column as a list of cells; a frame without that column raises
  \<^verbatim>\<open>KeyError\<close>. A record that lacks the key of a column has a null cell there.
\<close>

definition getitem :: "('f, 't) dataframe \<Rightarrow> string \<Rightarrow> error + ('f, 't) pyval list" where
  "getitem df col =
     (if col \<in> set (columns df)
      then Inr (map (\<lambda>r. case map_of r col of None \<Rightarrow> PyNone | Some v \<Rightarrow> v) df)
      else Inl KeyError)"

text \<open>\<^verbatim>\<open>df[col] = series\<close>: the column is replaced row by row.\<close>

definition setitem :: "('f, 't) dataframe \<Rightarrow> string \<Rightarrow> ('f, 't) pyval list \<Rightarrow> ('f, 't) dataframe" where
  "setitem df col series = map (\<lambda>(r, v). AList.update col v r) (zip df series)"

text \<open>
  \<^verbatim>\<open>pd.to_datetime(series, format=fmt)\<close>, cell by cell. A null cell becomes
  \<^verbatim>\<open>NaT\<close>, a timestamp stays, a string goes to the library's parser \<open>strptime\<close>
  together with the format, and a refusal of the parser is \<^verbatim>\<open>ValueError\<close>. The
  loader only ever passes columns of strings and \<^verbatim>\<open>None\<close>; a float cell, which it
  never passes, is refused.
\<close>

fun to_datetime_cell ::
  "(string \<Rightarrow> string \<Rightarrow> 't option) \<Rightarrow> string \<Rightarrow> ('f, 't) pyval \<Rightarrow> error + ('f, 't) pyval" where
  "to_datetime_cell strptime fmt PyNone = Inr NaT"
| "to_datetime_cell strptime fmt NaT = Inr NaT"
| "to_datetime_cell strptime fmt (Timestamp t) = Inr (Timestamp t)"
| "to_datetime_cell strptime fmt (PyStr s) =
     (case strptime s fmt of None \<Rightarrow> Inl ValueError | Some t \<Rightarrow> Inr (Timestamp t))"
| "to_datetime_cell strptime fmt (PyFloat x) = Inl ValueError"

fun to_datetime ::
  "(string \<Rightarrow> string \<Rightarrow> 't option) \<Rightarrow> ('f, 't) pyval list \<Rightarrow> string \<Rightarrow> error + ('f, 't) pyval list" where
  "to_datetime strptime [] fmt = Inr []"
| "to_datetime strptime (v # vs) fmt =
     (case to_datetime_cell strptime fmt v of
        Inl err \<Rightarrow> Inl err
      | Inr w \<Rightarrow> (case to_datetime strptime vs fmt of Inl err \<Rightarrow> Inl err | Inr ws \<Rightarrow> Inr (w # ws)))"

section \<open>The loader\<close>

text \<open>
  The record built for one event of each section (source lines 41-44, 50-53, 59-63,
  69-75, 81-85, 91-94). The values of a dictionary display are evaluated in order, and
  only \<^verbatim>\<open>float\<close> can raise.
\<close>

definition glucose_record :: "(string \<Rightarrow> 'f option) \<Rightarrow> element \<Rightarrow> error + ('f, 't) row" where
  "glucose_record py_float event =
     (case float py_float (get event ''value'') of
        Inl err \<Rightarrow> Inl err
      | Inr v \<Rightarrow> Inr [(''timestamp'', pyval_of (get event ''ts'')), (''value'', PyFloat v)])"

definition basal_record :: "(string \<Rightarrow> 'f option) \<Rightarrow> element \<Rightarrow> error + ('f, 't) row" where
  "basal_record py_float event =
     (case float py_float (get event ''value'') of
        Inl err \<Rightarrow> Inl err
      | Inr v \<Rightarrow> Inr [(''timestamp'', pyval_of (get event ''ts'')), (''value'', PyFloat v)])"

definition tempbasal_record :: "(string \<Rightarrow> 'f option) \<Rightarrow> element \<Rightarrow> error + ('f, 't) row" where
  "tempbasal_record py_float event =
     (case float py_float (get event ''value'') of
        Inl err \<Rightarrow> Inl err
      | Inr v \<Rightarrow>
          Inr [(''ts_begin'', pyval_of (get event ''ts_begin'')),
               (''ts_end'', pyval_of (get event ''ts_end'')),
               (''value'', PyFloat v)])"

definition bolus_record :: "(string \<Rightarrow> 'f option) \<Rightarrow> element \<Rightarrow> error + ('f, 't) row" where
  "bolus_record py_float event =
     (case float py_float (get event ''dose'') of
        Inl err \<Rightarrow> Inl err
      | Inr d \<Rightarrow>
          (case float py_float (get event ''bwz_carb_input'') of
             Inl err \<Rightarrow> Inl err
           | Inr c \<Rightarrow>
               Inr [(''ts_begin'', pyval_of (get event ''ts_begin'')),
                    (''ts_end'', pyval_of (get event ''ts_end'')),
                    (''type'', pyval_of (get event ''type'')),
                    (''dose'', PyFloat d),
                    (''bwz_carb_input'', PyFloat c)]))"

definition meal_record :: "(string \<Rightarrow> 'f option) \<Rightarrow> element \<Rightarrow> error + ('f, 't) row" where
  "meal_record py_float event =
     (case float py_float (get event ''carbs'') of
        Inl err \<Rightarrow> Inl err
      | Inr c \<Rightarrow>
          Inr [(''timestamp'', pyval_of (get event ''ts'')),
               (''type'', pyval_of (get event ''type'')),
               (''carbs'', PyFloat c)])"

definition step_record :: "(string \<Rightarrow> 'f option) \<Rightarrow> element \<Rightarrow> error + ('f, 't) row" where
  "step_record py_float event =
     (case float py_float (get event ''value'') of
        Inl err \<Rightarrow> Inl err
      | Inr v \<Rightarrow> Inr [(''timestamp'', pyval_of (get event ''ts'')), (''value'', PyFloat v)])"

text \<open>
  The loop \<^verbatim>\<open>for event in section.findall('event'): data.append(record)\<close>: the list
  grows at its end, and the first exception leaves the loop.
\<close>

fun append_events ::
  "(element \<Rightarrow> error + ('f, 't) row) \<Rightarrow> element list \<Rightarrow> ('f, 't) row list \<Rightarrow> error + ('f, 't) row list" where
  "append_events record [] data = Inr data"
| "append_events record (event # events) data =
     (case record event of
        Inl err \<Rightarrow> Inl err
      | Inr r \<Rightarrow> append_events record events (data @ [r]))"

text \<open>
  One extraction block: \<^verbatim>\<open>section = root.find(name)\<close>, then the loop when the
  section is not \<^verbatim>\<open>None\<close>. The list starts empty (source lines 30-35).
\<close>

definition extract_events ::
  "element \<Rightarrow> string \<Rightarrow> (element \<Rightarrow> error + ('f, 't) row) \<Rightarrow> error + ('f, 't) row list" where
  "extract_events xml_root name record =
     (case find_child xml_root name of
        None \<Rightarrow> Inr []
      | Some sect \<Rightarrow> append_events record (findall sect ''event'') [])"

text \<open>The format of every conversion (source lines 106-123).\<close>

definition timestamp_format :: string where
  "timestamp_format = ''%d-%m-%Y %H:%M:%S''"

text \<open>\<^verbatim>\<open>df[col] = pd.to_datetime(df[col], format='%d-%m-%Y %H:%M:%S')\<close>.\<close>

definition convert_column ::
  "(string \<Rightarrow> string \<Rightarrow> 't option) \<Rightarrow> ('f, 't) dataframe \<Rightarrow> string \<Rightarrow> error + ('f, 't) dataframe" where
  "convert_column strptime df col =
     (case getitem df col of
        Inl err \<Rightarrow> Inl err
      | Inr series \<Rightarrow>
          (case to_datetime strptime series timestamp_format of
             Inl err \<Rightarrow> Inl err
           | Inr converted \<Rightarrow> Inr (setitem df col converted)))"

text \<open>
  The conversion blocks \<^verbatim>\<open>if not df.empty: ...\<close>, with one column (glucose, basal,
  meal, step) and with two (tempbasal, bolus).
\<close>

definition convert_timestamp ::
  "(string \<Rightarrow> string \<Rightarrow> 't option) \<Rightarrow> ('f, 't) dataframe \<Rightarrow> error + ('f, 't) dataframe" where
  "convert_timestamp strptime df =
     (if \<not> empty df then convert_column strptime df ''timestamp'' else Inr df)"

definition convert_begin_end ::
  "(string \<Rightarrow> string \<Rightarrow> 't option) \<Rightarrow> ('f, 't) dataframe \<Rightarrow> error + ('f, 't) dataframe" where
  "convert_begin_end strptime df =
     (if \<not> empty df then
        (case convert_column strptime df ''ts_begin'' of
           Inl err \<Rightarrow> Inl err
         | Inr df' \<Rightarrow> convert_column strptime df' ''ts_end'')
      else Inr df)"

text \<open>
  The loader. \<open>ET_parse\<close> stands for \<^verbatim>\<open>ET.parse(path).getroot()\<close>: it reads the file
  and returns the root element, or the exception of a missing file or of a document
  that is not well formed. \<open>py_float\<close> is the built-in parser of floats and
  \<open>strptime\<close> the parser pandas applies to a string under a format. The six lists are
  filled first, then the frames are built and converted in the same order. The result
  is the exception that left the function, or the returned dictionary.
\<close>

definition load_ohiot1dm_xml ::
  "('p \<Rightarrow> error + element) \<Rightarrow> (string \<Rightarrow> 'f option) \<Rightarrow> (string \<Rightarrow> string \<Rightarrow> 't option) \<Rightarrow> 'p
     \<Rightarrow> error + (string \<rightharpoonup> ('f, 't) dataframe)" where
  "load_ohiot1dm_xml ET_parse py_float strptime xml_file_path =
     and_then (ET_parse xml_file_path) (\<lambda>xml_root.
     and_then (extract_events xml_root ''glucose_level'' (glucose_record py_float)) (\<lambda>glucose_data.
     and_then (extract_events xml_root ''basal'' (basal_record py_float)) (\<lambda>basal_data.
     and_then (extract_events xml_root ''temp_basal'' (tempbasal_record py_float)) (\<lambda>tempbasal_data.
     and_then (extract_events xml_root ''bolus'' (bolus_record py_float)) (\<lambda>bolus_data.
     and_then (extract_events xml_root ''meal'' (meal_record py_float)) (\<lambda>meal_data.
     and_then (extract_events xml_root ''basis_steps'' (step_record py_float)) (\<lambda>step_data.
     and_then (convert_timestamp strptime (DataFrame glucose_data)) (\<lambda>df_glucose.
     and_then (convert_timestamp strptime (DataFrame basal_data)) (\<lambda>df_basal.
     and_then (convert_begin_end strptime (DataFrame tempbasal_data)) (\<lambda>df_tempbasal.
     and_then (convert_begin_end strptime (DataFrame bolus_data)) (\<lambda>df_bolus.
     and_then (convert_timestamp strptime (DataFrame meal_data)) (\<lambda>df_meal.
     and_then (convert_timestamp strptime (DataFrame step_data)) (\<lambda>df_step.
     Inr [''glucose_level'' \<mapsto> df_glucose,
          ''basal'' \<mapsto> df_basal,
          ''tempbasal'' \<mapsto> df_tempbasal,
          ''bolus'' \<mapsto> df_bolus,
          ''meal'' \<mapsto> df_meal,
          ''step'' \<mapsto> df_step])))))))))))))"

section \<open>The schema of the six categories\<close>

text \<open>
  The six extraction blocks differ only in the section they look for, in the key under
  which the frame is returned and in the fields of their records. The tables below
  collect this from the source, so that a statement can range over the categories.
\<close>

datatype category = Glucose_level | Basal | Temp_basal | Bolus | Meal | Basis_steps

text \<open>The tag passed to \<^verbatim>\<open>root.find\<close> (source lines 38, 47, 56, 66, 78, 88).\<close>

fun section_name :: "category \<Rightarrow> string" where
  "section_name Glucose_level = ''glucose_level''"
| "section_name Basal = ''basal''"
| "section_name Temp_basal = ''temp_basal''"
| "section_name Bolus = ''bolus''"
| "section_name Meal = ''meal''"
| "section_name Basis_steps = ''basis_steps''"

text \<open>The key of the category's frame in the returned dictionary (source lines 125-132).\<close>

fun result_key :: "category \<Rightarrow> string" where
  "result_key Glucose_level = ''glucose_level''"
| "result_key Basal = ''basal''"
| "result_key Temp_basal = ''tempbasal''"
| "result_key Bolus = ''bolus''"
| "result_key Meal = ''meal''"
| "result_key Basis_steps = ''step''"

text \<open>
  A field of a record is numeric (it goes through \<^verbatim>\<open>float\<close>), a plain string, or a
  timestamp (its column goes through \<^verbatim>\<open>pd.to_datetime\<close>). Each field is listed as
  column name, attribute name and kind, in the order of the record's keys.
\<close>

datatype kind = Numeric | Text | Time

fun schema :: "category \<Rightarrow> (string \<times> string \<times> kind) list" where
  "schema Glucose_level = [(''timestamp'', ''ts'', Time), (''value'', ''value'', Numeric)]"
| "schema Basal = [(''timestamp'', ''ts'', Time), (''value'', ''value'', Numeric)]"
| "schema Temp_basal =
     [(''ts_begin'', ''ts_begin'', Time), (''ts_end'', ''ts_end'', Time), (''value'', ''value'', Numeric)]"
| "schema Bolus =
     [(''ts_begin'', ''ts_begin'', Time), (''ts_end'', ''ts_end'', Time), (''type'', ''type'', Text),
      (''dose'', ''dose'', Numeric), (''bwz_carb_input'', ''bwz_carb_input'', Numeric)]"
| "schema Meal = [(''timestamp'', ''ts'', Time), (''type'', ''type'', Text), (''carbs'', ''carbs'', Numeric)]"
| "schema Basis_steps = [(''timestamp'', ''ts'', Time), (''value'', ''value'', Numeric)]"

text \<open>The record function and the conversion block of each category, as the loader pairs them.\<close>

fun record_of :: "category \<Rightarrow> (string \<Rightarrow> 'f option) \<Rightarrow> element \<Rightarrow> error + ('f, 't) row" where
  "record_of Glucose_level = glucose_record"
| "record_of Basal = basal_record"
| "record_of Temp_basal = tempbasal_record"
| "record_of Bolus = bolus_record"
| "record_of Meal = meal_record"
| "record_of Basis_steps = step_record"

fun convert_of ::
  "category \<Rightarrow> (string \<Rightarrow> string \<Rightarrow> 't option) \<Rightarrow> ('f, 't) dataframe \<Rightarrow> error + ('f, 't) dataframe" where
  "convert_of Glucose_level = convert_timestamp"
| "convert_of Basal = convert_timestamp"
| "convert_of Temp_basal = convert_begin_end"
| "convert_of Bolus = convert_begin_end"
| "convert_of Meal = convert_timestamp"
| "convert_of Basis_steps = convert_timestamp"

text \<open>
  The events of a category in a document: the \<^verbatim>\<open>event\<close> children of the first
  section with the category's tag, in document order; none when there is no such section.
\<close>

definition events :: "element \<Rightarrow> category \<Rightarrow> element list" where
  "events xml_root c =
     (case find_child xml_root (section_name c) of
        None \<Rightarrow> []
      | Some sect \<Rightarrow> findall sect ''event'')"

text \<open>
  The cell a field of one event ends up as in the returned frame, read off the schema:
  a numeric field is the float of the attribute's exact text and has no value when the
  attribute is absent or its text is refused; a string field is the text or
  \<^verbatim>\<open>None\<close>; a timestamp field is the parsed text, \<^verbatim>\<open>NaT\<close> when the attribute is
  absent, and has no value when the text is refused.
\<close>

fun field_cell ::
  "(string \<Rightarrow> 'f option) \<Rightarrow> (string \<Rightarrow> string \<Rightarrow> 't option) \<Rightarrow> element \<Rightarrow> string \<Rightarrow> kind
     \<Rightarrow> ('f, 't) pyval option" where
  "field_cell py_float strptime event attr Numeric =
     (case get event attr of
        None \<Rightarrow> None
      | Some s \<Rightarrow> (case py_float s of None \<Rightarrow> None | Some v \<Rightarrow> Some (PyFloat v)))"
| "field_cell py_float strptime event attr Text =
     (case get event attr of None \<Rightarrow> Some PyNone | Some s \<Rightarrow> Some (PyStr s))"
| "field_cell py_float strptime event attr Time =
     (case get event attr of
        None \<Rightarrow> Some NaT
      | Some s \<Rightarrow> (case strptime s timestamp_format of None \<Rightarrow> None | Some t \<Rightarrow> Some (Timestamp t)))"

text \<open>The row of one event by the schema: every field must have a value.\<close>

fun schema_row ::
  "(string \<Rightarrow> 'f option) \<Rightarrow> (string \<Rightarrow> string \<Rightarrow> 't option) \<Rightarrow> element \<Rightarrow> (string \<times> string \<times> kind) list
     \<Rightarrow> ('f, 't) row option" where
  "schema_row py_float strptime event [] = Some []"
| "schema_row py_float strptime event ((col, attr, k) # fields) =
     (case field_cell py_float strptime event attr k of
        None \<Rightarrow> None
      | Some v \<Rightarrow>
          (case schema_row py_float strptime event fields of
             None \<Rightarrow> None
           | Some r \<Rightarrow> Some ((col, v) # r)))"

definition expected_row ::
  "(string \<Rightarrow> 'f option) \<Rightarrow> (string \<Rightarrow> string \<Rightarrow> 't option) \<Rightarrow> category \<Rightarrow> element \<Rightarrow> ('f, 't) row option" where
  "expected_row py_float strptime c event = schema_row py_float strptime event (schema c)"

text \<open>
  The frame of a category by the schema: the rows of its events in document order,
  and no frame at all when a field of some event has no value.
\<close>

definition expected_table ::
  "(string \<Rightarrow> 'f option) \<Rightarrow> (string \<Rightarrow> string \<Rightarrow> 't option) \<Rightarrow> element \<Rightarrow> category
     \<Rightarrow> ('f, 't) dataframe option" where
  "expected_table py_float strptime xml_root c =
     those (map (expected_row py_float strptime c) (events xml_root c))"

section \<open>Two parsers to run the loader with\<close>

text \<open>
  The statements about the loader hold for every pair of parsers. To run it on the
  example documents, the two parsers below read the texts that the data set contains:
  plain decimal literals and zero-padded timestamps.
\<close>

definition digit :: "char \<Rightarrow> nat option" where
  "digit c = (let n = (of_char c :: nat) in if 48 \<le> n \<and> n \<le> 57 then Some (n - 48) else None)"

text \<open>Exactly \<open>n\<close> decimal digits at the head of a text: their value and the rest.\<close>

fun take_digits :: "nat \<Rightarrow> nat \<Rightarrow> string \<Rightarrow> (nat \<times> string) option" where
  "take_digits 0 acc s = Some (acc, s)"
| "take_digits (Suc n) acc [] = None"
| "take_digits (Suc n) acc (c # s) =
     (case digit c of None \<Rightarrow> None | Some d \<Rightarrow> take_digits n (10 * acc + d) s)"

text \<open>A text of digits only: its value, most significant digit first.\<close>

fun all_digits :: "nat \<Rightarrow> string \<Rightarrow> nat option" where
  "all_digits acc [] = Some acc"
| "all_digits acc (c # s) =
     (case digit c of None \<Rightarrow> None | Some d \<Rightarrow> all_digits (10 * acc + d) s)"

text \<open>
  The value of an unsigned decimal literal \<^verbatim>\<open>digits\<close> or \<^verbatim>\<open>digits.digits\<close>, as an
  exact rational.
\<close>

definition unsigned_decimal :: "string \<Rightarrow> rat option" where
  "unsigned_decimal s =
     (let ip = takeWhile (\<lambda>c. c \<noteq> CHR ''.'') s; rest = dropWhile (\<lambda>c. c \<noteq> CHR ''.'') s in
      if ip = [] then None
      else
        (case all_digits 0 ip of
           None \<Rightarrow> None
         | Some i \<Rightarrow>
             (case rest of
                [] \<Rightarrow> Some (of_nat i)
              | dot # fp \<Rightarrow>
                  (if fp = [] then None
                   else
                     (case all_digits 0 fp of
                        None \<Rightarrow> None
                      | Some f \<Rightarrow> Some (of_nat i + of_nat f / 10 ^ length fp))))))"

text \<open>
  The float of a decimal literal with an optional minus sign. Python's \<^verbatim>\<open>float\<close>
  returns the double nearest to the literal's value, which is the value itself for the
  literals that a double represents exactly (\<^verbatim>\<open>150.0\<close>, \<^verbatim>\<open>5\<close>, \<^verbatim>\<open>120.5\<close>); this
  parser returns the literal's value.
\<close>

definition decimal_float :: "string \<Rightarrow> rat option" where
  "decimal_float s =
     (case s of
        [] \<Rightarrow> None
      | c # s' \<Rightarrow>
          (if c = CHR ''-'' then map_option uminus (unsigned_decimal s') else unsigned_decimal s))"

text \<open>A calendar timestamp, as the fields of a \<^verbatim>\<open>pandas.Timestamp\<close>.\<close>

record datetime =
  year :: nat
  month :: nat
  day :: nat
  hour :: nat
  minute :: nat
  second :: nat

definition leap_year :: "nat \<Rightarrow> bool" where
  "leap_year y = (y mod 4 = 0 \<and> (y mod 100 \<noteq> 0 \<or> y mod 400 = 0))"

definition days_in_month :: "nat \<Rightarrow> nat \<Rightarrow> nat" where
  "days_in_month y m =
     (if m = 2 then (if leap_year y then 29 else 28)
      else if m = 4 \<or> m = 6 \<or> m = 9 \<or> m = 11 then 30
      else 31)"

definition valid_datetime :: "datetime \<Rightarrow> bool" where
  "valid_datetime dt =
     (1 \<le> month dt \<and> month dt \<le> 12 \<and> 1 \<le> day dt \<and> day dt \<le> days_in_month (year dt) (month dt)
      \<and> hour dt < 24 \<and> minute dt < 60 \<and> second dt < 60)"

text \<open>One directive of a format stores the number it read in its field.\<close>

definition set_field :: "char \<Rightarrow> nat \<Rightarrow> datetime \<Rightarrow> datetime option" where
  "set_field d n dt =
     (if d = CHR ''d'' then Some (dt\<lparr>day := n\<rparr>)
      else if d = CHR ''m'' then Some (dt\<lparr>month := n\<rparr>)
      else if d = CHR ''Y'' then Some (dt\<lparr>year := n\<rparr>)
      else if d = CHR ''H'' then Some (dt\<lparr>hour := n\<rparr>)
      else if d = CHR ''M'' then Some (dt\<lparr>minute := n\<rparr>)
      else if d = CHR ''S'' then Some (dt\<lparr>second := n\<rparr>)
      else None)"

text \<open>
  A text is read along the format: a directive \<^verbatim>\<open>%d %m %H %M %S\<close> takes two digits,
  \<^verbatim>\<open>%Y\<close> takes four, any other character of the format must be the next character
  of the text, and text and format must end together.
\<close>

fun read_format :: "string \<Rightarrow> string \<Rightarrow> datetime \<Rightarrow> datetime option" where
  "read_format [] text dt = (if text = [] then Some dt else None)"
| "read_format [f] text dt = (if f \<noteq> CHR ''%'' \<and> text = [f] then Some dt else None)"
| "read_format (f # d # fmt) text dt =
     (if f = CHR ''%'' then
        (case take_digits (if d = CHR ''Y'' then 4 else 2) 0 text of
           None \<Rightarrow> None
         | Some (n, rest) \<Rightarrow>
             (case set_field d n dt of None \<Rightarrow> None | Some dt' \<Rightarrow> read_format fmt rest dt'))
      else
        (case text of
           [] \<Rightarrow> None
         | c # rest \<Rightarrow> (if c = f then read_format (d # fmt) rest dt else None)))"

text \<open>
  The parser of zero-padded timestamps: the fields start at 1 January 1900, midnight,
  and the result must be a date of the calendar.
\<close>

definition padded_strptime :: "string \<Rightarrow> string \<Rightarrow> datetime option" where
  "padded_strptime text fmt =
     (case read_format fmt text \<lparr>year = 1900, month = 1, day = 1, hour = 0, minute = 0, second = 0\<rparr> of
        None \<Rightarrow> None
      | Some dt \<Rightarrow> (if valid_datetime dt then Some dt else None))"

text \<open>A file system for the examples: a path names a document, or no file.\<close>

definition parse_in :: "(string \<times> element) list \<Rightarrow> string \<Rightarrow> error + element" where
  "parse_in files path = (case map_of files path of None \<Rightarrow> Inl OSError | Some doc \<Rightarrow> Inr doc)"

section \<open>Example documents\<close>

definition ev :: "(string \<times> string) list \<Rightarrow> element" where
  "ev attributes = Element ''event'' attributes []"

text \<open>
  One glucose reading and one bolus, every other section absent.
\<close>

definition minimal_document :: element where
  "minimal_document =
     Element ''patient'' [(''id'', ''559''), (''weight'', ''99'')]
       [Element ''glucose_level'' []
          [ev [(''ts'', ''01-01-2021 00:00:00''), (''value'', ''120.5'')]],
        Element ''bolus'' []
          [ev [(''ts_begin'', ''01-01-2021 00:05:00''), (''ts_end'', ''01-01-2021 00:10:00''),
               (''type'', ''normal''), (''dose'', ''2.5''), (''bwz_carb_input'', ''30.0'')]]]"

text \<open>
  Three glucose readings that are not in chronological order, the third equal to the
  first, and a section of steps that is present without events.
\<close>

definition readings_document :: element where
  "readings_document =
     Element ''patient'' [(''id'', ''559'')]
       [Element ''glucose_level'' []
          [ev [(''ts'', ''02-12-2021 06:14:00''), (''value'', ''150.0'')],
           ev [(''ts'', ''02-12-2021 06:04:00''), (''value'', ''5'')],
           ev [(''ts'', ''02-12-2021 06:14:00''), (''value'', ''150.0'')]],
        Element ''basis_steps'' [] []]"

text \<open>Two sections of meals, one event each.\<close>

definition two_meals_document :: element where
  "two_meals_document =
     Element ''patient'' [(''id'', ''559'')]
       [Element ''meal'' []
          [ev [(''ts'', ''07-12-2021 08:00:00''), (''type'', ''Breakfast''), (''carbs'', ''45'')]],
        Element ''basal'' []
          [ev [(''ts'', ''07-12-2021 00:00:00''), (''value'', ''1.25'')]],
        Element ''meal'' []
          [ev [(''ts'', ''07-12-2021 19:30:00''), (''type'', ''Dinner''), (''carbs'', ''80'')]]]"

text \<open>A meal without its type and its time, and a bolus without its type.\<close>

definition sparse_document :: element where
  "sparse_document =
     Element ''patient'' [(''id'', ''559'')]
       [Element ''meal'' [] [ev [(''carbs'', ''45'')]],
        Element ''bolus'' []
          [ev [(''ts_begin'', ''07-12-2021 08:00:00''), (''dose'', ''2.5''), (''bwz_carb_input'', ''45'')]]]"

text \<open>A clean glucose section, and a basal event without its value.\<close>

definition no_value_document :: element where
  "no_value_document =
     Element ''patient'' [(''id'', ''559'')]
       [Element ''glucose_level'' []
          [ev [(''ts'', ''01-01-2021 00:00:00''), (''value'', ''120.5'')]],
        Element ''basal'' [] [ev [(''ts'', ''01-01-2021 00:00:00'')]]]"

text \<open>A clean glucose section, and a bolus whose dose is not a number.\<close>

definition bad_dose_document :: element where
  "bad_dose_document =
     Element ''patient'' [(''id'', ''559'')]
       [Element ''glucose_level'' []
          [ev [(''ts'', ''01-01-2021 00:00:00''), (''value'', ''120.5'')]],
        Element ''bolus'' []
          [ev [(''ts_begin'', ''01-01-2021 00:05:00''), (''ts_end'', ''01-01-2021 00:10:00''),
               (''type'', ''normal''), (''dose'', ''two''), (''bwz_carb_input'', ''30.0'')]]]"

text \<open>A clean glucose section, and a basal event dated year first.\<close>

definition bad_time_document :: element where
  "bad_time_document =
     Element ''patient'' [(''id'', ''559'')]
       [Element ''glucose_level'' []
          [ev [(''ts'', ''01-01-2021 00:00:00''), (''value'', ''120.5'')]],
        Element ''basal'' [] [ev [(''ts'', ''2021-12-02 06:14:00''), (''value'', ''1.25'')]]]"

text \<open>The files of the examples.\<close>

definition example_files :: "(string \<times> element) list" where
  "example_files =
     [(''minimal.xml'', minimal_document),
      (''readings.xml'', readings_document),
      (''two_meals.xml'', two_meals_document),
      (''sparse.xml'', sparse_document),
      (''no_value.xml'', no_value_document),
      (''bad_dose.xml'', bad_dose_document),
      (''bad_time.xml'', bad_time_document),
      (''empty.xml'', Element ''patient'' [] [])]"

definition example_load :: "string \<Rightarrow> error + (string \<rightharpoonup> (rat, datetime) dataframe)" where
  "example_load path = load_ohiot1dm_xml (parse_in example_files) decimal_float padded_strptime path"

text \<open>The dictionaries the loader returns for these files.\<close>

definition minimal_tables :: "string \<rightharpoonup> (rat, datetime) dataframe" where
  "minimal_tables =
     [''glucose_level'' \<mapsto>
        [[(''timestamp'', Timestamp \<lparr>year = 2021, month = 1, day = 1, hour = 0, minute = 0, second = 0\<rparr>),
          (''value'', PyFloat (241 / 2))]],
      ''basal'' \<mapsto> [],
      ''tempbasal'' \<mapsto> [],
      ''bolus'' \<mapsto>
        [[(''ts_begin'', Timestamp \<lparr>year = 2021, month = 1, day = 1, hour = 0, minute = 5, second = 0\<rparr>),
          (''ts_end'', Timestamp \<lparr>year = 2021, month = 1, day = 1, hour = 0, minute = 10, second = 0\<rparr>),
          (''type'', PyStr ''normal''), (''dose'', PyFloat (5 / 2)), (''bwz_carb_input'', PyFloat 30)]],
      ''meal'' \<mapsto> [],
      ''step'' \<mapsto> []]"

definition readings_tables :: "string \<rightharpoonup> (rat, datetime) dataframe" where
  "readings_tables =
     [''glucose_level'' \<mapsto>
        [[(''timestamp'', Timestamp \<lparr>year = 2021, month = 12, day = 2, hour = 6, minute = 14, second = 0\<rparr>),
          (''value'', PyFloat 150)],
         [(''timestamp'', Timestamp \<lparr>year = 2021, month = 12, day = 2, hour = 6, minute = 4, second = 0\<rparr>),
          (''value'', PyFloat 5)],
         [(''timestamp'', Timestamp \<lparr>year = 2021, month = 12, day = 2, hour = 6, minute = 14, second = 0\<rparr>),
          (''value'', PyFloat 150)]],
      ''basal'' \<mapsto> [],
      ''tempbasal'' \<mapsto> [],
      ''bolus'' \<mapsto> [],
      ''meal'' \<mapsto> [],
      ''step'' \<mapsto> []]"

definition two_meals_tables :: "string \<rightharpoonup> (rat, datetime) dataframe" where
  "two_meals_tables =
     [''glucose_level'' \<mapsto> [],
      ''basal'' \<mapsto>
        [[(''timestamp'', Timestamp \<lparr>year = 2021, month = 12, day = 7, hour = 0, minute = 0, second = 0\<rparr>),
          (''value'', PyFloat (5 / 4))]],
      ''tempbasal'' \<mapsto> [],
      ''bolus'' \<mapsto> [],
      ''meal'' \<mapsto>
        [[(''timestamp'', Timestamp \<lparr>year = 2021, month = 12, day = 7, hour = 8, minute = 0, second = 0\<rparr>),
          (''type'', PyStr ''Breakfast''), (''carbs'', PyFloat 45)]],
      ''step'' \<mapsto> []]"

definition sparse_tables :: "string \<rightharpoonup> (rat, datetime) dataframe" where
  "sparse_tables =
     [''glucose_level'' \<mapsto> [],
      ''basal'' \<mapsto> [],
      ''tempbasal'' \<mapsto> [],
      ''bolus'' \<mapsto>
        [[(''ts_begin'', Timestamp \<lparr>year = 2021, month = 12, day = 7, hour = 8, minute = 0, second = 0\<rparr>),
          (''ts_end'', NaT), (''type'', PyNone), (''dose'', PyFloat (5 / 2)), (''bwz_carb_input'', PyFloat 45)]],
      ''meal'' \<mapsto> [[(''timestamp'', NaT), (''type'', PyNone), (''carbs'', PyFloat 45)]],
      ''step'' \<mapsto> []]"

definition empty_tables :: "string \<rightharpoonup> (rat, datetime) dataframe" where
  "empty_tables =
     [''glucose_level'' \<mapsto> [], ''basal'' \<mapsto> [], ''tempbasal'' \<mapsto> [], ''bolus'' \<mapsto> [], ''meal'' \<mapsto> [],
      ''step'' \<mapsto> []]"

section \<open>The loader step by step\<close>

lemma and_then_Inr_iff: "(and_then m f = Inr y) = (\<exists>x. m = Inr x \<and> f x = Inr y)"
  by (cases m) (simp_all add: and_then_def)

lemma and_then_Inl_iff: "(and_then m f = Inl e) = (m = Inl e \<or> (\<exists>x. m = Inr x \<and> f x = Inl e))"
  by (cases m) (simp_all add: and_then_def)

lemma append_events_Inr_iff:
  "(append_events record es data = Inr rs) =
   (\<exists>rs'. list_all2 (\<lambda>e r. record e = Inr r) es rs' \<and> rs = data @ rs')"
proof (induction es arbitrary: data)
  case Nil
  then show ?case by auto
next
  case (Cons e es)
  show ?case
  proof (cases "record e")
    case (Inl err)
    then show ?thesis by (simp add: list_all2_Cons1)
  next
    case (Inr r)
    then show ?thesis by (auto simp: Cons.IH list_all2_Cons1)
  qed
qed

lemma extract_events_Inr_iff:
  "(extract_events xml_root (section_name c) record = Inr data) =
   list_all2 (\<lambda>e r. record e = Inr r) (events xml_root c) data"
  by (auto simp: extract_events_def events_def append_events_Inr_iff split: option.splits)

lemma to_datetime_Inr_iff:
  "(to_datetime strptime vs fmt = Inr ws) =
   list_all2 (\<lambda>v w. to_datetime_cell strptime fmt v = Inr w) vs ws"
proof (induction vs arbitrary: ws)
  case Nil
  then show ?case by auto
next
  case (Cons v vs)
  show ?case
    by (cases "to_datetime_cell strptime fmt v")
       (auto simp: Cons.IH [symmetric] list_all2_Cons1 split: sum.splits)
qed

lemma setitem_Cons: "setitem (r # df) col (w # ws) = AList.update col w r # setitem df col ws"
  by (simp add: setitem_def)

lemma setitem_list_all2:
  "(\<exists>ws. list_all2 (\<lambda>r w. P (g r) w) df ws \<and> setitem df col ws = df') =
   list_all2 (\<lambda>r r'. \<exists>w. P (g r) w \<and> r' = AList.update col w r) df df'"
proof (induction df arbitrary: df')
  case Nil
  then show ?case by (auto simp: setitem_def)
next
  case (Cons r df)
  show ?case
  proof
    assume "\<exists>ws. list_all2 (\<lambda>r w. P (g r) w) (r # df) ws \<and> setitem (r # df) col ws = df'"
    then obtain w ws where w: "P (g r) w" and ws: "list_all2 (\<lambda>r w. P (g r) w) df ws"
      and df': "df' = AList.update col w r # setitem df col ws"
      by (auto simp: list_all2_Cons1 setitem_Cons)
    from ws have "list_all2 (\<lambda>r r'. \<exists>w. P (g r) w \<and> r' = AList.update col w r) df (setitem df col ws)"
      using Cons.IH [of "setitem df col ws"] by blast
    with w df' show "list_all2 (\<lambda>r r'. \<exists>w. P (g r) w \<and> r' = AList.update col w r) (r # df) df'"
      by auto
  next
    assume "list_all2 (\<lambda>r r'. \<exists>w. P (g r) w \<and> r' = AList.update col w r) (r # df) df'"
    then obtain w tl where w: "P (g r) w" and df': "df' = AList.update col w r # tl"
      and tl: "list_all2 (\<lambda>r r'. \<exists>w. P (g r) w \<and> r' = AList.update col w r) df tl"
      by (auto simp: list_all2_Cons1)
    from tl obtain ws where ws: "list_all2 (\<lambda>r w. P (g r) w) df ws" and "setitem df col ws = tl"
      using Cons.IH [of tl] by blast
    with w df' have "list_all2 (\<lambda>r w. P (g r) w) (r # df) (w # ws) \<and> setitem (r # df) col (w # ws) = df'"
      by (simp add: setitem_Cons)
    then show "\<exists>ws. list_all2 (\<lambda>r w. P (g r) w) (r # df) ws \<and> setitem (r # df) col ws = df'"
      by blast
  qed
qed

lemma convert_column_Inr_iff:
  assumes "df \<noteq> []" and "\<forall>r\<in>set df. map_of r col \<noteq> None"
  shows "(convert_column strptime df col = Inr df') =
    list_all2 (\<lambda>r r'. \<exists>w. to_datetime_cell strptime timestamp_format (the (map_of r col)) = Inr w
        \<and> r' = AList.update col w r) df df'"
proof -
  obtain r rs where df: "df = r # rs" using assms(1) by (cases df) auto
  with assms(2) obtain v where "map_of r col = Some v" by auto
  then have "col \<in> set (columns df)"
    by (auto simp: df columns_def dest: map_of_SomeD intro: rev_image_eqI)
  moreover have "map (\<lambda>r. case map_of r col of None \<Rightarrow> PyNone | Some v \<Rightarrow> v) df = map (\<lambda>r. the (map_of r col)) df"
    using assms(2) by auto
  ultimately have g: "getitem df col = Inr (map (\<lambda>r. the (map_of r col)) df)"
    by (simp add: getitem_def)
  have "(convert_column strptime df col = Inr df') =
     (\<exists>ws. to_datetime strptime (map (\<lambda>r. the (map_of r col)) df) timestamp_format = Inr ws
         \<and> setitem df col ws = df')"
    by (auto simp: convert_column_def g split: sum.splits)
  also have "\<dots> = (\<exists>ws. list_all2 (\<lambda>r w. to_datetime_cell strptime timestamp_format (the (map_of r col)) = Inr w) df ws
         \<and> setitem df col ws = df')"
    by (simp add: to_datetime_Inr_iff list_all2_map1)
  finally show ?thesis
    by (simp only: setitem_list_all2 [where P = "\<lambda>v w. to_datetime_cell strptime timestamp_format v = Inr w"
           and g = "\<lambda>r. the (map_of r col)"])
qed


lemma convert_timestamp_Inr_iff:
  assumes "\<forall>r\<in>set df. map_of r ''timestamp'' \<noteq> None"
  shows "(convert_timestamp strptime (DataFrame df) = Inr df') =
    list_all2 (\<lambda>r r'. \<exists>w. to_datetime_cell strptime timestamp_format (the (map_of r ''timestamp'')) = Inr w
        \<and> r' = AList.update ''timestamp'' w r) df df'"
proof (cases "df = []")
  case True
  then show ?thesis by (auto simp: convert_timestamp_def DataFrame_def empty_def)
next
  case False
  then show ?thesis
    using convert_column_Inr_iff [OF False assms]
    by (simp add: convert_timestamp_def DataFrame_def empty_def)
qed

lemma convert_begin_end_Inr_iff:
  assumes "\<forall>r\<in>set df. map_of r ''ts_begin'' \<noteq> None \<and> map_of r ''ts_end'' \<noteq> None"
  shows "(convert_begin_end strptime (DataFrame df) = Inr df') =
    list_all2 (\<lambda>r r'. \<exists>w w'. to_datetime_cell strptime timestamp_format (the (map_of r ''ts_begin'')) = Inr w
        \<and> to_datetime_cell strptime timestamp_format (the (map_of r ''ts_end'')) = Inr w'
        \<and> r' = AList.update ''ts_end'' w' (AList.update ''ts_begin'' w r)) df df'"
proof (cases "df = []")
  case True
  then show ?thesis by (auto simp: convert_begin_end_def DataFrame_def empty_def)
next
  case False
  let ?B = "\<lambda>r r'. \<exists>w. to_datetime_cell strptime timestamp_format (the (map_of r ''ts_begin'')) = Inr w
        \<and> r' = AList.update ''ts_begin'' w r"
  let ?E = "\<lambda>r r'. \<exists>w. to_datetime_cell strptime timestamp_format (the (map_of r ''ts_end'')) = Inr w
        \<and> r' = AList.update ''ts_end'' w r"
  have b: "(convert_column strptime df ''ts_begin'' = Inr d) = list_all2 ?B df d" for d
    using convert_column_Inr_iff [OF False, of "''ts_begin''"] assms by simp
  have e: "(convert_column strptime d ''ts_end'' = Inr df') = list_all2 ?E d df'"
    if "list_all2 ?B df d" for d
  proof -
    from that False have "d \<noteq> []" by auto
    moreover have "\<forall>r\<in>set d. map_of r ''ts_end'' \<noteq> None"
    proof
      fix r' assume "r' \<in> set d"
      then obtain i where i: "i < length d" "d ! i = r'" by (auto simp: in_set_conv_nth)
      with that have "?B (df ! i) r'" "df ! i \<in> set df"
        by (auto simp: list_all2_conv_all_nth)
      with assms show "map_of r' ''ts_end'' \<noteq> None"
        by (auto simp: update_conv')
    qed
    ultimately show ?thesis by (rule convert_column_Inr_iff)
  qed
  have "(convert_begin_end strptime (DataFrame df) = Inr df') =
     (\<exists>d. convert_column strptime df ''ts_begin'' = Inr d \<and> convert_column strptime d ''ts_end'' = Inr df')"
    using False by (auto simp: convert_begin_end_def DataFrame_def empty_def split: sum.splits)
  also have "\<dots> = (\<exists>d. list_all2 ?B df d \<and> list_all2 ?E d df')"
    using e by (auto simp: b)
  also have "\<dots> = list_all2 (?B OO ?E) df df'"
    by (simp add: list.rel_compp relcompp_apply)
  also have "?B OO ?E = (\<lambda>r r'. \<exists>w w'. to_datetime_cell strptime timestamp_format (the (map_of r ''ts_begin'')) = Inr w
        \<and> to_datetime_cell strptime timestamp_format (the (map_of r ''ts_end'')) = Inr w'
        \<and> r' = AList.update ''ts_end'' w' (AList.update ''ts_begin'' w r))"
    by (auto simp: fun_eq_iff relcompp_apply update_conv')
  finally show ?thesis .
qed


lemma pipeline_compose:
  assumes pre: "\<And>e r. record e = Inr r \<Longrightarrow> Q r"
    and conv: "\<And>data. \<forall>r\<in>set data. Q r \<Longrightarrow> (convert data = Inr df) = list_all2 B data df"
    and step: "\<And>e r'. (\<exists>r. record e = Inr r \<and> B r r') = (F e = Some r')"
  shows "(\<exists>data. list_all2 (\<lambda>e r. record e = Inr r) evs data \<and> convert data = Inr df) =
         list_all2 (\<lambda>e r'. F e = Some r') evs df"
proof -
  have q: "\<forall>r\<in>set data. Q r" if "list_all2 (\<lambda>e r. record e = Inr r) evs data" for data
  proof
    fix r assume "r \<in> set data"
    then obtain i where "i < length data" "data ! i = r" by (auto simp: in_set_conv_nth)
    with that have "record (evs ! i) = Inr r" by (auto simp: list_all2_conv_all_nth)
    then show "Q r" by (rule pre)
  qed
  have "(\<exists>data. list_all2 (\<lambda>e r. record e = Inr r) evs data \<and> convert data = Inr df) =
        (\<exists>data. list_all2 (\<lambda>e r. record e = Inr r) evs data \<and> list_all2 B data df)"
    using conv q by blast
  also have "\<dots> = list_all2 ((\<lambda>e r. record e = Inr r) OO B) evs df"
    by (simp add: list.rel_compp relcompp_apply)
  also have "(\<lambda>e r. record e = Inr r) OO B = (\<lambda>e r'. F e = Some r')"
    using step by (simp add: fun_eq_iff relcompp_apply)
  finally show ?thesis .
qed

lemma to_datetime_cell_pyval_of:
  "(to_datetime_cell strptime timestamp_format (pyval_of x) = Inr w) =
   (case x of None \<Rightarrow> w = NaT | Some s \<Rightarrow> (\<exists>t. strptime s timestamp_format = Some t \<and> w = Timestamp t))"
  by (auto simp: pyval_of_def split: option.splits)

lemma float_Inr_iff:
  "(float py_float x = Inr v) = (\<exists>s. x = Some s \<and> py_float s = Some v)"
  by (auto simp: float_def split: option.splits)

lemma field_cell_Numeric:
  "(field_cell py_float strptime e attr Numeric = Some w) = (\<exists>v. float py_float (get e attr) = Inr v \<and> w = PyFloat v)"
  by (auto simp: float_Inr_iff split: option.splits)

lemma field_cell_Text:
  "(field_cell py_float strptime e attr Text = Some w) = (w = pyval_of (get e attr))"
  by (auto simp: pyval_of_def split: option.splits)

lemma field_cell_Time:
  "(field_cell py_float strptime e attr Time = Some w) =
   (to_datetime_cell strptime timestamp_format (pyval_of (get e attr)) = Inr w)"
  by (auto simp: to_datetime_cell_pyval_of split: option.splits)

lemma schema_row_Cons_iff:
  "(schema_row py_float strptime e ((col, attr, k) # fs) = Some r') =
   (\<exists>w r. field_cell py_float strptime e attr k = Some w \<and> schema_row py_float strptime e fs = Some r
      \<and> r' = (col, w) # r)"
  by (auto split: option.splits)

lemma glucose_step:
  "(\<exists>r. glucose_record py_float e = Inr r \<and>
      (\<exists>w. to_datetime_cell strptime timestamp_format (the (map_of r ''timestamp'')) = Inr w
        \<and> r' = AList.update ''timestamp'' w r)) =
   (expected_row py_float strptime Glucose_level e = Some r')"
  by (auto simp: glucose_record_def expected_row_def schema_row_Cons_iff field_cell_Numeric field_cell_Time
      simp del: field_cell.simps schema_row.simps(2) split: sum.splits)


lemma basal_step:
  "(\<exists>r. basal_record py_float e = Inr r \<and>
      (\<exists>w. to_datetime_cell strptime timestamp_format (the (map_of r ''timestamp'')) = Inr w
        \<and> r' = AList.update ''timestamp'' w r)) =
   (expected_row py_float strptime Basal e = Some r')"
  by (auto simp: basal_record_def expected_row_def schema_row_Cons_iff field_cell_Numeric field_cell_Time
      simp del: field_cell.simps schema_row.simps(2) split: sum.splits)

lemma step_step:
  "(\<exists>r. step_record py_float e = Inr r \<and>
      (\<exists>w. to_datetime_cell strptime timestamp_format (the (map_of r ''timestamp'')) = Inr w
        \<and> r' = AList.update ''timestamp'' w r)) =
   (expected_row py_float strptime Basis_steps e = Some r')"
  by (auto simp: step_record_def expected_row_def schema_row_Cons_iff field_cell_Numeric field_cell_Time
      simp del: field_cell.simps schema_row.simps(2) split: sum.splits)

lemma meal_step:
  "(\<exists>r. meal_record py_float e = Inr r \<and>
      (\<exists>w. to_datetime_cell strptime timestamp_format (the (map_of r ''timestamp'')) = Inr w
        \<and> r' = AList.update ''timestamp'' w r)) =
   (expected_row py_float strptime Meal e = Some r')"
  by (auto simp: meal_record_def expected_row_def schema_row_Cons_iff field_cell_Numeric field_cell_Time
      field_cell_Text simp del: field_cell.simps schema_row.simps(2) split: sum.splits)

lemma tempbasal_step:
  "(\<exists>r. tempbasal_record py_float e = Inr r \<and>
      (\<exists>w w'. to_datetime_cell strptime timestamp_format (the (map_of r ''ts_begin'')) = Inr w
        \<and> to_datetime_cell strptime timestamp_format (the (map_of r ''ts_end'')) = Inr w'
        \<and> r' = AList.update ''ts_end'' w' (AList.update ''ts_begin'' w r))) =
   (expected_row py_float strptime Temp_basal e = Some r')"
  by (auto simp: tempbasal_record_def expected_row_def schema_row_Cons_iff field_cell_Numeric field_cell_Time
      simp del: field_cell.simps schema_row.simps(2) split: sum.splits)

lemma bolus_step:
  "(\<exists>r. bolus_record py_float e = Inr r \<and>
      (\<exists>w w'. to_datetime_cell strptime timestamp_format (the (map_of r ''ts_begin'')) = Inr w
        \<and> to_datetime_cell strptime timestamp_format (the (map_of r ''ts_end'')) = Inr w'
        \<and> r' = AList.update ''ts_end'' w' (AList.update ''ts_begin'' w r))) =
   (expected_row py_float strptime Bolus e = Some r')"
  by (auto simp: bolus_record_def expected_row_def schema_row_Cons_iff field_cell_Numeric field_cell_Time
      field_cell_Text simp del: field_cell.simps schema_row.simps(2) split: sum.splits)

lemma category_pipeline:
  "(\<exists>data. extract_events xml_root (section_name c) (record_of c py_float) = Inr data
       \<and> convert_of c strptime (DataFrame data) = Inr df) =
   list_all2 (\<lambda>e r. expected_row py_float strptime c e = Some r) (events xml_root c) df"
proof (cases c)
  case Glucose_level
  show ?thesis
    unfolding Glucose_level extract_events_Inr_iff record_of.simps convert_of.simps
    by (rule pipeline_compose [where Q = "\<lambda>r. map_of r ''timestamp'' \<noteq> None", OF _ convert_timestamp_Inr_iff glucose_step])
       (auto simp: glucose_record_def split: sum.splits)
next
  case Basal
  show ?thesis
    unfolding Basal extract_events_Inr_iff record_of.simps convert_of.simps
    by (rule pipeline_compose [where Q = "\<lambda>r. map_of r ''timestamp'' \<noteq> None", OF _ convert_timestamp_Inr_iff basal_step])
       (auto simp: basal_record_def split: sum.splits)
next
  case Temp_basal
  show ?thesis
    unfolding Temp_basal extract_events_Inr_iff record_of.simps convert_of.simps
    by (rule pipeline_compose [where Q = "\<lambda>r. map_of r ''ts_begin'' \<noteq> None \<and> map_of r ''ts_end'' \<noteq> None",
          OF _ convert_begin_end_Inr_iff tempbasal_step])
       (auto simp: tempbasal_record_def split: sum.splits)
next
  case Bolus
  show ?thesis
    unfolding Bolus extract_events_Inr_iff record_of.simps convert_of.simps
    by (rule pipeline_compose [where Q = "\<lambda>r. map_of r ''ts_begin'' \<noteq> None \<and> map_of r ''ts_end'' \<noteq> None",
          OF _ convert_begin_end_Inr_iff bolus_step])
       (auto simp: bolus_record_def split: sum.splits)
next
  case Meal
  show ?thesis
    unfolding Meal extract_events_Inr_iff record_of.simps convert_of.simps
    by (rule pipeline_compose [where Q = "\<lambda>r. map_of r ''timestamp'' \<noteq> None", OF _ convert_timestamp_Inr_iff meal_step])
       (auto simp: meal_record_def split: sum.splits)
next
  case Basis_steps
  show ?thesis
    unfolding Basis_steps extract_events_Inr_iff record_of.simps convert_of.simps
    by (rule pipeline_compose [where Q = "\<lambda>r. map_of r ''timestamp'' \<noteq> None", OF _ convert_timestamp_Inr_iff step_step])
       (auto simp: step_record_def split: sum.splits)
qed


lemma those_map_Some_iff:
  "(those (map f xs) = Some ys) = list_all2 (\<lambda>x y. f x = Some y) xs ys"
proof (induction xs arbitrary: ys)
  case Nil
  then show ?case by auto
next
  case (Cons x xs)
  show ?case
    by (cases "f x") (auto simp: Cons.IH [symmetric] list_all2_Cons1 split: option.splits)
qed

lemma expected_table_pipeline:
  "(expected_table py_float strptime xml_root c = Some df) =
   (\<exists>data. extract_events xml_root (section_name c) (record_of c py_float) = Inr data
       \<and> convert_of c strptime (DataFrame data) = Inr df)"
  by (simp add: expected_table_def those_map_Some_iff category_pipeline)

lemma load_Inr_iff:
  assumes "ET_parse xml_file_path = Inr xml_root"
  shows "(load_ohiot1dm_xml ET_parse py_float strptime xml_file_path = Inr m) =
    (\<exists>g b t bo me s.
        expected_table py_float strptime xml_root Glucose_level = Some g
      \<and> expected_table py_float strptime xml_root Basal = Some b
      \<and> expected_table py_float strptime xml_root Temp_basal = Some t
      \<and> expected_table py_float strptime xml_root Bolus = Some bo
      \<and> expected_table py_float strptime xml_root Meal = Some me
      \<and> expected_table py_float strptime xml_root Basis_steps = Some s
      \<and> m = [''glucose_level'' \<mapsto> g, ''basal'' \<mapsto> b, ''tempbasal'' \<mapsto> t, ''bolus'' \<mapsto> bo,
              ''meal'' \<mapsto> me, ''step'' \<mapsto> s])"
  unfolding expected_table_pipeline load_ohiot1dm_xml_def and_then_Inr_iff assms
  apply (simp only: sum.inject simp_thms ex_simps section_name.simps record_of.simps convert_of.simps)
  apply (rule iffI)
   apply (elim exE conjE)
   apply blast
   apply (elim exE conjE)
  apply blast
  done

section \<open>The returned dictionary\<close>

lemma those_map_None_iff: "(those (map f xs) = None) = (\<exists>x\<in>set xs. f x = None)"
  by (induction xs) (auto split: option.splits)

lemma expected_table_Some_iff:
  "(expected_table py_float strptime xml_root c = Some df) =
   list_all2 (\<lambda>e r. expected_row py_float strptime c e = Some r) (events xml_root c) df"
  by (simp add: expected_table_def those_map_Some_iff)

lemma expected_table_None_iff:
  "(expected_table py_float strptime xml_root c = None) =
   (\<exists>e\<in>set (events xml_root c). expected_row py_float strptime c e = None)"
  by (simp add: expected_table_def those_map_None_iff)

lemma schema_row_None_iff:
  "(schema_row py_float strptime e fs = None) =
   (\<exists>(col, attr, k)\<in>set fs. field_cell py_float strptime e attr k = None)"
  by (induction fs) (auto split: option.splits)

lemma schema_row_map_of:
  assumes "schema_row py_float strptime e fs = Some r" and "distinct (map fst fs)"
    and "(col, attr, k) \<in> set fs"
  shows "map_of r col = field_cell py_float strptime e attr k"
  using assms
proof (induction fs arbitrary: r)
  case Nil
  then show ?case by simp
next
  case (Cons f fs)
  obtain col' attr' k' where f: "f = (col', attr', k')" by (cases f) auto
  from Cons.prems(1) obtain w r0 where w: "field_cell py_float strptime e attr' k' = Some w"
    and r0: "schema_row py_float strptime e fs = Some r0" and r: "r = (col', w) # r0"
    by (auto simp: f split: option.splits)
  show ?case
  proof (cases "(col, attr, k) = f")
    case True
    then show ?thesis using w r f by simp
  next
    case False
    with Cons.prems(3) have mem: "(col, attr, k) \<in> set fs" by simp
    with Cons.prems(2) have "col \<noteq> col'" by (force simp: f)
    moreover have "map_of r0 col = field_cell py_float strptime e attr k"
      using Cons.IH [OF r0 _ mem] Cons.prems(2) by simp
    ultimately show ?thesis by (simp add: r)
  qed
qed

lemma distinct_schema: "distinct (map fst (schema c))"
  by (cases c) simp_all

lemma expected_row_map_of:
  "expected_row py_float strptime c e = Some r \<Longrightarrow> (col, attr, k) \<in> set (schema c) \<Longrightarrow>
   map_of r col = field_cell py_float strptime e attr k"
  unfolding expected_row_def by (rule schema_row_map_of [OF _ distinct_schema])

lemma expected_row_None_iff:
  "(expected_row py_float strptime c e = None) =
   (\<exists>(col, attr, k)\<in>set (schema c). field_cell py_float strptime e attr k = None)"
  by (simp add: expected_row_def schema_row_None_iff)

lemma result_key_lookup:
  "[''glucose_level'' \<mapsto> g, ''basal'' \<mapsto> b, ''tempbasal'' \<mapsto> t, ''bolus'' \<mapsto> bo, ''meal'' \<mapsto> me,
    ''step'' \<mapsto> s] (result_key c) =
   Some (case c of Glucose_level \<Rightarrow> g | Basal \<Rightarrow> b | Temp_basal \<Rightarrow> t | Bolus \<Rightarrow> bo | Meal \<Rightarrow> me
         | Basis_steps \<Rightarrow> s)"
  by (cases c) simp_all

lemma load_Inr_table:
  assumes "ET_parse xml_file_path = Inr xml_root"
    and "load_ohiot1dm_xml ET_parse py_float strptime xml_file_path = Inr m"
  shows "\<exists>df. m (result_key c) = Some df \<and> expected_table py_float strptime xml_root c = Some df"
proof -
  from assms obtain g b t bo me s where
    "expected_table py_float strptime xml_root Glucose_level = Some g"
    "expected_table py_float strptime xml_root Basal = Some b"
    "expected_table py_float strptime xml_root Temp_basal = Some t"
    "expected_table py_float strptime xml_root Bolus = Some bo"
    "expected_table py_float strptime xml_root Meal = Some me"
    "expected_table py_float strptime xml_root Basis_steps = Some s"
    and m: "m = [''glucose_level'' \<mapsto> g, ''basal'' \<mapsto> b, ''tempbasal'' \<mapsto> t, ''bolus'' \<mapsto> bo,
              ''meal'' \<mapsto> me, ''step'' \<mapsto> s]"
    unfolding load_Inr_iff [where ET_parse = ET_parse and xml_file_path = xml_file_path, OF assms(1)] by blast
  then show ?thesis
    unfolding m result_key_lookup by (cases c) simp_all
qed

lemma dom_six:
  "dom [''glucose_level'' \<mapsto> g, ''basal'' \<mapsto> b, ''tempbasal'' \<mapsto> t, ''bolus'' \<mapsto> bo,
        ''meal'' \<mapsto> me, ''step'' \<mapsto> s] =
   {''glucose_level'', ''basal'', ''tempbasal'', ''bolus'', ''meal'', ''step''}"
  by (simp add: insert_commute)

lemma load_Inr_dom:
  assumes "load_ohiot1dm_xml ET_parse py_float strptime xml_file_path = Inr m"
  shows "dom m = {''glucose_level'', ''basal'', ''tempbasal'', ''bolus'', ''meal'', ''step''}"
proof -
  from assms obtain xml_root where "ET_parse xml_file_path = Inr xml_root"
    unfolding load_ohiot1dm_xml_def and_then_Inr_iff by (elim exE conjE)
  from iffD1 [OF load_Inr_iff [where ET_parse = ET_parse and xml_file_path = xml_file_path, OF this] assms]
  show ?thesis
    by (elim exE conjE) (simp only: dom_six)
qed

lemma load_Inr_intro:
  assumes "ET_parse xml_file_path = Inr xml_root"
    and "expected_table py_float strptime xml_root Glucose_level = Some g"
    and "expected_table py_float strptime xml_root Basal = Some b"
    and "expected_table py_float strptime xml_root Temp_basal = Some t"
    and "expected_table py_float strptime xml_root Bolus = Some bo"
    and "expected_table py_float strptime xml_root Meal = Some me"
    and "expected_table py_float strptime xml_root Basis_steps = Some s"
  shows "load_ohiot1dm_xml ET_parse py_float strptime xml_file_path =
      Inr [''glucose_level'' \<mapsto> g, ''basal'' \<mapsto> b, ''tempbasal'' \<mapsto> t, ''bolus'' \<mapsto> bo,
           ''meal'' \<mapsto> me, ''step'' \<mapsto> s]"
  unfolding load_Inr_iff [where ET_parse = ET_parse and xml_file_path = xml_file_path, OF assms(1)]
  by (intro exI conjI) (rule assms refl)+

lemma load_succeeds_iff:
  assumes "ET_parse xml_file_path = Inr xml_root"
  shows "(\<exists>m. load_ohiot1dm_xml ET_parse py_float strptime xml_file_path = Inr m) =
         (\<forall>c. expected_table py_float strptime xml_root c \<noteq> None)"
proof
  assume "\<exists>m. load_ohiot1dm_xml ET_parse py_float strptime xml_file_path = Inr m"
  then obtain m where "load_ohiot1dm_xml ET_parse py_float strptime xml_file_path = Inr m" ..
  from load_Inr_table [where ET_parse = ET_parse and xml_file_path = xml_file_path, OF assms this]
  show "\<forall>c. expected_table py_float strptime xml_root c \<noteq> None" by auto
next
  assume a: "\<forall>c. expected_table py_float strptime xml_root c \<noteq> None"
  have ex: "\<exists>df. expected_table py_float strptime xml_root c = Some df" for c
    using a by auto
  from ex obtain g where g: "expected_table py_float strptime xml_root Glucose_level = Some g" by blast
  from ex obtain b where b: "expected_table py_float strptime xml_root Basal = Some b" by blast
  from ex obtain t where t: "expected_table py_float strptime xml_root Temp_basal = Some t" by blast
  from ex obtain bo where bo: "expected_table py_float strptime xml_root Bolus = Some bo" by blast
  from ex obtain me where me: "expected_table py_float strptime xml_root Meal = Some me" by blast
  from ex obtain s where s: "expected_table py_float strptime xml_root Basis_steps = Some s" by blast
  show "\<exists>m. load_ohiot1dm_xml ET_parse py_float strptime xml_file_path = Inr m"
    by (rule exI)
       (rule load_Inr_intro [where ET_parse = ET_parse and xml_file_path = xml_file_path, OF assms g b t bo me s])
qed

lemma load_fails_iff:
  assumes "ET_parse xml_file_path = Inr xml_root"
  shows "(\<exists>err. load_ohiot1dm_xml ET_parse py_float strptime xml_file_path = Inl err) =
         (\<exists>c. expected_table py_float strptime xml_root c = None)"
proof -
  have "(\<exists>err. load_ohiot1dm_xml ET_parse py_float strptime xml_file_path = Inl err) =
        (\<not> (\<exists>m. load_ohiot1dm_xml ET_parse py_float strptime xml_file_path = Inr m))"
    by (cases "load_ohiot1dm_xml ET_parse py_float strptime xml_file_path") auto
  then show ?thesis unfolding load_succeeds_iff [where ET_parse = ET_parse and xml_file_path = xml_file_path, OF assms] by simp
qed

section \<open>Running the examples\<close>

lemmas run_defs =
  example_load_def example_files_def parse_in_def load_ohiot1dm_xml_def and_then_def extract_events_def
  find_child_def findall_def get_def pyval_of_def float_def DataFrame_def empty_def columns_def
  getitem_def setitem_def convert_column_def convert_timestamp_def convert_begin_end_def
  timestamp_format_def glucose_record_def basal_record_def tempbasal_record_def bolus_record_def
  meal_record_def step_record_def ev_def decimal_float_def unsigned_decimal_def digit_def
  padded_strptime_def set_field_def valid_datetime_def days_in_month_def leap_year_def eval_nat_numeral

lemma parse_example_files:
  "parse_in example_files ''minimal.xml'' = Inr minimal_document"
  "parse_in example_files ''readings.xml'' = Inr readings_document"
  "parse_in example_files ''two_meals.xml'' = Inr two_meals_document"
  "parse_in example_files ''sparse.xml'' = Inr sparse_document"
  "parse_in example_files ''no_value.xml'' = Inr no_value_document"
  "parse_in example_files ''bad_dose.xml'' = Inr bad_dose_document"
  "parse_in example_files ''bad_time.xml'' = Inr bad_time_document"
  "parse_in example_files ''empty.xml'' = Inr (Element ''patient'' [] [])"
  "parse_in example_files ''missing.xml'' = Inl OSError"
  by (simp_all add: parse_in_def example_files_def)

lemma minimal_run: "example_load ''minimal.xml'' = Inr minimal_tables"
  by (simp add: run_defs minimal_document_def minimal_tables_def)

lemma readings_run: "example_load ''readings.xml'' = Inr readings_tables"
  by (simp add: run_defs readings_document_def readings_tables_def)

lemma two_meals_run: "example_load ''two_meals.xml'' = Inr two_meals_tables"
  by (simp add: run_defs two_meals_document_def two_meals_tables_def)

lemma sparse_run: "example_load ''sparse.xml'' = Inr sparse_tables"
  by (simp add: run_defs sparse_document_def sparse_tables_def)

lemma empty_run: "example_load ''empty.xml'' = Inr empty_tables"
  by (simp add: run_defs empty_tables_def)

lemma no_value_run: "example_load ''no_value.xml'' = Inl TypeError"
  by (simp add: run_defs no_value_document_def)

lemma bad_dose_run: "example_load ''bad_dose.xml'' = Inl ValueError"
  by (simp add: run_defs bad_dose_document_def)


lemma missing_file_run: "example_load ''missing.xml'' = Inl OSError"
  by (simp add: run_defs)

lemmas events_defs = events_def find_child_def findall_def ev_def get_def

section \<open>Rows, failures and first sections\<close>

lemma events_length:
  "length (events xml_root c) =
   (case find_child xml_root (section_name c) of None \<Rightarrow> 0 | Some sect \<Rightarrow> length (findall sect ''event''))"
  by (simp add: events_def split: option.splits)

lemma load_Inr_row:
  assumes "ET_parse xml_file_path = Inr xml_root"
    and "load_ohiot1dm_xml ET_parse py_float strptime xml_file_path = Inr m"
  shows "\<exists>df. m (result_key c) = Some df \<and> length df = length (events xml_root c)
        \<and> (\<forall>i<length df. expected_row py_float strptime c (events xml_root c ! i) = Some (df ! i))"
proof -
  from load_Inr_table [where ET_parse = ET_parse and xml_file_path = xml_file_path, OF assms]
  obtain df where "m (result_key c) = Some df"
    and "expected_table py_float strptime xml_root c = Some df"
    by blast
  then show ?thesis
    by (auto simp: expected_table_Some_iff list_all2_conv_all_nth)
qed

lemma load_Inl_event:
  assumes "ET_parse xml_file_path = Inr xml_root"
    and "e \<in> set (events xml_root c)"
    and "(col, attr, k) \<in> set (schema c)"
    and "field_cell py_float strptime e attr k = None"
  shows "\<exists>err. load_ohiot1dm_xml ET_parse py_float strptime xml_file_path = Inl err"
proof -
  from assms(3,4) have "expected_row py_float strptime c e = None"
    unfolding expected_row_None_iff by blast
  with assms(2) have "expected_table py_float strptime xml_root c = None"
    unfolding expected_table_None_iff by blast
  then show ?thesis
    unfolding load_fails_iff [where ET_parse = ET_parse and xml_file_path = xml_file_path, OF assms(1)]
    by blast
qed

lemma events_absent:
  "find_child xml_root (section_name c) = None \<Longrightarrow> events xml_root c = []"
  by (simp add: events_def)

lemma expected_table_no_events:
  "events xml_root c = [] \<Longrightarrow> expected_table py_float strptime xml_root c = Some []"
  by (simp add: expected_table_def)

text \<open>
  Without the guard \<^verbatim>\<open>if not df.empty\<close> the conversion of a frame without rows would
  raise, since such a frame has no column; with the guard it returns the frame.
\<close>

lemma convert_column_no_rows: "convert_column strptime (DataFrame []) col = Inl KeyError"
  by (simp add: convert_column_def getitem_def columns_def DataFrame_def)

lemma convert_of_no_rows: "convert_of c strptime (DataFrame []) = Inr []"
  by (cases c) (simp_all add: convert_timestamp_def convert_begin_end_def DataFrame_def empty_def)

lemma card_six:
  "card {''glucose_level'', ''basal'', ''tempbasal'', ''bolus'', ''meal'', ''step''} = 6"
  by simp

lemmas parser_defs =
  decimal_float_def unsigned_decimal_def digit_def padded_strptime_def set_field_def valid_datetime_def
  days_in_month_def leap_year_def timestamp_format_def eval_nat_numeral

lemma find_first_skip:
  "\<forall>x\<in>set pre. tag x \<noteq> name \<Longrightarrow> find_first (pre @ rest) name = find_first rest name"
  by (induction pre) auto

lemma find_first_filter:
  "name \<noteq> t \<Longrightarrow> find_first (filter (\<lambda>x. tag x \<noteq> t) xs) name = find_first xs name"
  by (induction xs) auto

lemma find_first_drop_later:
  "find_first (pre @ s1 # filter (\<lambda>x. tag x \<noteq> tag s1) post) name = find_first (pre @ s1 # post) name"
  by (induction pre) (auto simp: find_first_filter)

lemma load_cong:
  assumes "ET_parse xml_file_path = Inr xml_root"
    and "ET_parse' xml_file_path' = Inr xml_root'"
    and "\<And>name. find_child xml_root name = find_child xml_root' name"
  shows "load_ohiot1dm_xml ET_parse py_float strptime xml_file_path =
         load_ohiot1dm_xml ET_parse' py_float strptime xml_file_path'"
proof -
  have e: "extract_events xml_root name f = extract_events xml_root' name f"
    for name and f :: "element \<Rightarrow> error + ('c, 'd) row"
    by (simp add: extract_events_def assms(3))
  have a: "and_then (Inr x) f = f x" for x :: element and f :: "element \<Rightarrow> error + 'e"
    by (simp add: and_then_def)
  show ?thesis
    unfolding load_ohiot1dm_xml_def assms(1,2) a e ..
qed

lemmas record_defs =
  glucose_record_def basal_record_def tempbasal_record_def bolus_record_def meal_record_def
  step_record_def

lemma record_of_null:
  assumes "(col, attr, k) \<in> set (schema c)" and "k \<noteq> Numeric"
    and "record_of c py_float e = Inr r"
  shows "map_of r col = Some (pyval_of (get e attr))"
  using assms by (cases c) (auto simp: record_defs split: sum.splits)

lemma record_of_Inr:
  assumes "\<forall>col attr. (col, attr, Numeric) \<in> set (schema c) \<longrightarrow> (\<exists>v. float py_float (get e attr) = Inr v)"
  shows "\<exists>r. record_of c py_float e = Inr r"
proof -
  have n: "\<exists>v. float py_float (get e attr) = Inr v" if "(attr, attr, Numeric) \<in> set (schema c)" for attr
    using assms that by blast
  show ?thesis
  proof (cases c)
    case Glucose_level
    with n [of "''value''"] show ?thesis by (auto simp: record_defs)
  next
    case Basal
    with n [of "''value''"] show ?thesis by (auto simp: record_defs)
  next
    case Temp_basal
    with n [of "''value''"] show ?thesis by (auto simp: record_defs)
  next
    case Bolus
    with n [of "''dose''"] n [of "''bwz_carb_input''"] show ?thesis by (auto simp: record_defs)
  next
    case Meal
    with n [of "''carbs''"] show ?thesis by (auto simp: record_defs)
  next
    case Basis_steps
    with n [of "''value''"] show ?thesis by (auto simp: record_defs)
  qed
qed

lemma field_cell_absent:
  "k \<noteq> Numeric \<Longrightarrow> get e attr = None \<Longrightarrow>
   field_cell py_float strptime e attr k = Some (if k = Time then NaT else PyNone)"
  by (cases k) simp_all

section \<open>Properties of the loader\<close>

text \<open>
  C4. Whenever the loader returns for a document, the frame of each of the six
  categories has as many rows as there are \<^verbatim>\<open>event\<close> elements under the section
  that \<^verbatim>\<open>root.find\<close> locates for the category, and no row when there is no such
  section.
\<close>

theorem row_count:
  assumes "ET_parse xml_file_path = Inr xml_root"
    and "load_ohiot1dm_xml ET_parse py_float strptime xml_file_path = Inr m"
  shows "map_option length (m (result_key c)) =
         Some (case find_child xml_root (section_name c) of
                 None \<Rightarrow> 0
               | Some sect \<Rightarrow> length (findall sect ''event''))"
proof -
  from load_Inr_table [where ET_parse = ET_parse and xml_file_path = xml_file_path, OF assms]
  obtain df where df: "m (result_key c) = Some df"
    and "expected_table py_float strptime xml_root c = Some df"
    by blast
  then have "length df = length (events xml_root c)"
    by (auto simp: expected_table_Some_iff dest: list_all2_lengthD)
  with df show ?thesis by (simp add: events_length)
qed

theorem row_count_witness:
  "example_load ''readings.xml'' = Inr readings_tables
   \<and> length (findall (Element ''glucose_level'' []
          [ev [(''ts'', ''02-12-2021 06:14:00''), (''value'', ''150.0'')],
           ev [(''ts'', ''02-12-2021 06:04:00''), (''value'', ''5'')],
           ev [(''ts'', ''02-12-2021 06:14:00''), (''value'', ''150.0'')]]) ''event'') = 3
   \<and> map_option length (readings_tables ''glucose_level'') = Some 3
   \<and> find_child readings_document ''basal'' = None
   \<and> map_option length (readings_tables ''basal'') = Some 0"
  using row_count [where ET_parse = "parse_in example_files" and xml_file_path = "''readings.xml''",
      OF parse_example_files(2) readings_run [unfolded example_load_def], of Glucose_level]
    row_count [where ET_parse = "parse_in example_files" and xml_file_path = "''readings.xml''",
      OF parse_example_files(2) readings_run [unfolded example_load_def], of Basal]
  by (simp add: readings_run readings_tables_def find_child_def findall_def readings_document_def ev_def)

text \<open>
  C5. Whenever the loader returns, the frame of each category lists the rows of the
  category's events in document order: it is as long as the list of events, and its
  \<open>i\<close>-th row is the row of the \<open>i\<close>-th event. Nothing is sorted and equal events
  keep their rows.
\<close>

theorem row_order:
  assumes "ET_parse xml_file_path = Inr xml_root"
    and "load_ohiot1dm_xml ET_parse py_float strptime xml_file_path = Inr m"
  shows "\<exists>df. m (result_key c) = Some df
        \<and> length df = length (events xml_root c)
        \<and> (\<forall>i<length df. expected_row py_float strptime c (events xml_root c ! i) = Some (df ! i))
        \<and> map Some df = map (expected_row py_float strptime c) (events xml_root c)"
proof -
  from load_Inr_row [where ET_parse = ET_parse and xml_file_path = xml_file_path, OF assms]
  obtain df where df: "m (result_key c) = Some df" "length df = length (events xml_root c)"
    "\<forall>i<length df. expected_row py_float strptime c (events xml_root c ! i) = Some (df ! i)"
    by blast
  then have "map Some df = map (expected_row py_float strptime c) (events xml_root c)"
    by (simp add: list_eq_iff_nth_eq)
  with df show ?thesis by blast
qed

theorem row_order_witness:
  "events readings_document Glucose_level =
     [ev [(''ts'', ''02-12-2021 06:14:00''), (''value'', ''150.0'')],
      ev [(''ts'', ''02-12-2021 06:04:00''), (''value'', ''5'')],
      ev [(''ts'', ''02-12-2021 06:14:00''), (''value'', ''150.0'')]]
   \<and> example_load ''readings.xml'' = Inr readings_tables
   \<and> readings_tables ''glucose_level'' =
       Some [[(''timestamp'', Timestamp \<lparr>year = 2021, month = 12, day = 2, hour = 6, minute = 14, second = 0\<rparr>),
              (''value'', PyFloat 150)],
             [(''timestamp'', Timestamp \<lparr>year = 2021, month = 12, day = 2, hour = 6, minute = 4, second = 0\<rparr>),
              (''value'', PyFloat 5)],
             [(''timestamp'', Timestamp \<lparr>year = 2021, month = 12, day = 2, hour = 6, minute = 14, second = 0\<rparr>),
              (''value'', PyFloat 150)]]
   \<and> map (expected_row decimal_float padded_strptime Glucose_level) (events readings_document Glucose_level) =
       map Some
         [[(''timestamp'', Timestamp \<lparr>year = 2021, month = 12, day = 2, hour = 6, minute = 14, second = 0\<rparr>),
           (''value'', PyFloat 150)],
          [(''timestamp'', Timestamp \<lparr>year = 2021, month = 12, day = 2, hour = 6, minute = 4, second = 0\<rparr>),
           (''value'', PyFloat 5)],
          [(''timestamp'', Timestamp \<lparr>year = 2021, month = 12, day = 2, hour = 6, minute = 14, second = 0\<rparr>),
           (''value'', PyFloat 150)]]"
  using row_order [where ET_parse = "parse_in example_files" and xml_file_path = "''readings.xml''",
      OF parse_example_files(2) readings_run [unfolded example_load_def], of Glucose_level]
  by (auto simp: readings_run readings_tables_def events_defs readings_document_def)





text \<open>
  C1. Whenever the loader returns for a document, the dictionary has exactly six keys,
  \<^verbatim>\<open>glucose_level\<close>, \<^verbatim>\<open>basal\<close>, \<^verbatim>\<open>tempbasal\<close>, \<^verbatim>\<open>bolus\<close>, \<^verbatim>\<open>meal\<close> and
  \<^verbatim>\<open>step\<close>, one for each category, each bound to a frame, and the frame of a
  category whose section is absent is empty. The keys of the temporary basal rates and
  of the steps are \<^verbatim>\<open>tempbasal\<close> and \<^verbatim>\<open>step\<close>, as the docstring of the loader
  says, not the section names \<^verbatim>\<open>temp_basal\<close> and \<^verbatim>\<open>basis_steps\<close>: the dictionary
  returned for the minimal document has no entry under either section name.
\<close>

theorem load_keys:
  assumes "ET_parse xml_file_path = Inr xml_root"
    and "load_ohiot1dm_xml ET_parse py_float strptime xml_file_path = Inr m"
  shows "dom m = {''glucose_level'', ''basal'', ''tempbasal'', ''bolus'', ''meal'', ''step''}
       \<and> card (dom m) = 6
       \<and> (\<forall>c. \<exists>df. m (result_key c) = Some df)
       \<and> (\<forall>c. find_child xml_root (section_name c) = None \<longrightarrow> m (result_key c) = Some [])"
proof (intro conjI allI impI)
  show d: "dom m = {''glucose_level'', ''basal'', ''tempbasal'', ''bolus'', ''meal'', ''step''}"
    using assms(2) by (rule load_Inr_dom)
  show "card (dom m) = 6"
    unfolding d by (rule card_six)
next
  fix c
  from load_Inr_table [where ET_parse = ET_parse and xml_file_path = xml_file_path, OF assms]
  show "\<exists>df. m (result_key c) = Some df" by blast
next
  fix c
  assume "find_child xml_root (section_name c) = None"
  then have "expected_table py_float strptime xml_root c = Some []"
    by (simp add: events_absent expected_table_no_events)
  with load_Inr_table [where ET_parse = ET_parse and xml_file_path = xml_file_path, OF assms, of c]
  show "m (result_key c) = Some []" by auto
qed

theorem load_keys_witness:
  "example_load ''minimal.xml'' = Inr minimal_tables
   \<and> dom minimal_tables = {''glucose_level'', ''basal'', ''tempbasal'', ''bolus'', ''meal'', ''step''}
   \<and> card (dom minimal_tables) = 6
   \<and> find_child minimal_document ''temp_basal'' = None
   \<and> minimal_tables ''tempbasal'' = Some []
   \<and> find_child minimal_document ''basis_steps'' = None
   \<and> minimal_tables ''step'' = Some []"
  using load_keys [where ET_parse = "parse_in example_files" and xml_file_path = "''minimal.xml''",
      OF parse_example_files(1) minimal_run [unfolded example_load_def]]
  by (simp add: minimal_run find_child_def minimal_document_def minimal_tables_def)

theorem load_keys_counterexample:
  "example_load ''minimal.xml'' = Inr minimal_tables
   \<and> minimal_tables ''temp_basal'' = None
   \<and> minimal_tables ''basis_steps'' = None
   \<and> dom minimal_tables \<noteq> {''glucose_level'', ''basal'', ''temp_basal'', ''bolus'', ''meal'', ''basis_steps''}"
proof -
  have "''temp_basal'' \<notin> dom minimal_tables"
    by (simp add: minimal_tables_def)
  then have "dom minimal_tables \<noteq> {''glucose_level'', ''basal'', ''temp_basal'', ''bolus'', ''meal'', ''basis_steps''}"
    by blast
  then show ?thesis
    by (simp add: minimal_run) (simp add: minimal_tables_def)
qed

text \<open>
  C2. When an event of a category lacks an attribute that the loader passes to
  \<^verbatim>\<open>float\<close>, \<^verbatim>\<open>float(None)\<close> raises \<^verbatim>\<open>TypeError\<close> and the loader raises and
  returns no dictionary. The absence of a string or timestamp attribute alone does not
  make the loader fail: a meal without \<^verbatim>\<open>type\<close> and \<^verbatim>\<open>ts\<close> is loaded.
\<close>

theorem missing_numeric_attribute:
  assumes "ET_parse xml_file_path = Inr xml_root"
    and "e \<in> set (events xml_root c)"
    and "(col, attr, Numeric) \<in> set (schema c)"
    and "get e attr = None"
  shows "float py_float (get e attr) = Inl TypeError
       \<and> (\<exists>err. load_ohiot1dm_xml ET_parse py_float strptime xml_file_path = Inl err)"
proof
  show "float py_float (get e attr) = Inl TypeError"
    using assms(4) by (simp add: float_def)
  have "field_cell py_float strptime e attr Numeric = None"
    using assms(4) by simp
  then show "\<exists>err. load_ohiot1dm_xml ET_parse py_float strptime xml_file_path = Inl err"
    by (rule load_Inl_event [where ET_parse = ET_parse and xml_file_path = xml_file_path, OF assms(1-3)])
qed

theorem missing_numeric_attribute_witness:
  "ev [(''ts'', ''01-01-2021 00:00:00'')] \<in> set (events no_value_document Basal)
   \<and> (''value'', ''value'', Numeric) \<in> set (schema Basal)
   \<and> get (ev [(''ts'', ''01-01-2021 00:00:00'')]) ''value'' = None
   \<and> example_load ''no_value.xml'' = Inl TypeError"
  using missing_numeric_attribute [where ET_parse = "parse_in example_files"
      and xml_file_path = "''no_value.xml''" and py_float = decimal_float and strptime = padded_strptime
      and c = Basal and col = "''value''" and attr = "''value''"
      and e = "ev [(''ts'', ''01-01-2021 00:00:00'')]", OF parse_example_files(5)]
  by (simp add: no_value_run events_defs no_value_document_def)

theorem missing_attribute_counterexample:
  "ev [(''carbs'', ''45'')] \<in> set (events sparse_document Meal)
   \<and> (''type'', ''type'', Text) \<in> set (schema Meal)
   \<and> get (ev [(''carbs'', ''45'')]) ''type'' = None
   \<and> (''timestamp'', ''ts'', Time) \<in> set (schema Meal)
   \<and> get (ev [(''carbs'', ''45'')]) ''ts'' = None
   \<and> example_load ''sparse.xml'' = Inr sparse_tables
   \<and> sparse_tables ''meal'' = Some [[(''timestamp'', NaT), (''type'', PyNone), (''carbs'', PyFloat 45)]]"
  by (simp add: sparse_run events_defs sparse_document_def sparse_tables_def)

text \<open>
  C3. When the section of a category is absent, or present without \<^verbatim>\<open>event\<close>
  children, the extraction block of the category yields the empty list without raising,
  its conversion block returns the empty frame whatever the timestamp parser is (no text
  is parsed), the returned dictionary binds the category to the empty frame, and the
  loader returns as soon as the other five categories have a frame.
\<close>

theorem absent_section:
  assumes "ET_parse xml_file_path = Inr xml_root"
    and "find_child xml_root (section_name c) = None
       \<or> (\<exists>sect. find_child xml_root (section_name c) = Some sect \<and> findall sect ''event'' = [])"
  shows "extract_events xml_root (section_name c) (record_of c py_float) = Inr []
       \<and> convert_of c any_strptime (DataFrame []) = Inr []
       \<and> (\<forall>m. load_ohiot1dm_xml ET_parse py_float strptime xml_file_path = Inr m
             \<longrightarrow> m (result_key c) = Some [])
       \<and> ((\<forall>c'. c' \<noteq> c \<longrightarrow> expected_table py_float strptime xml_root c' \<noteq> None)
             \<longrightarrow> (\<exists>m. load_ohiot1dm_xml ET_parse py_float strptime xml_file_path = Inr m))"
proof (intro conjI allI impI)
  from assms(2) have ev: "events xml_root c = []"
    by (auto simp: events_def)
  then have tab: "expected_table py_float strptime xml_root c = Some []"
    by (rule expected_table_no_events)
  show "extract_events xml_root (section_name c) (record_of c py_float) = Inr []"
    using assms(2) by (auto simp: extract_events_def)
  show "convert_of c any_strptime (DataFrame []) = Inr []"
    by (rule convert_of_no_rows)
  show "m (result_key c) = Some []"
    if "load_ohiot1dm_xml ET_parse py_float strptime xml_file_path = Inr m" for m
    using load_Inr_table [where ET_parse = ET_parse and xml_file_path = xml_file_path, OF assms(1) that, of c]
      tab by auto
  show "\<exists>m. load_ohiot1dm_xml ET_parse py_float strptime xml_file_path = Inr m"
    if "\<forall>c'. c' \<noteq> c \<longrightarrow> expected_table py_float strptime xml_root c' \<noteq> None"
  proof -
    have "\<forall>c'. expected_table py_float strptime xml_root c' \<noteq> None"
      using that tab by (metis option.distinct(1))
    then show ?thesis
      unfolding load_succeeds_iff [where ET_parse = ET_parse and xml_file_path = xml_file_path, OF assms(1)] .
  qed
qed

theorem absent_section_witness:
  "find_child readings_document ''basal'' = None
   \<and> find_child readings_document ''basis_steps'' = Some (Element ''basis_steps'' [] [])
   \<and> findall (Element ''basis_steps'' [] []) ''event'' = []
   \<and> example_load ''readings.xml'' = Inr readings_tables
   \<and> readings_tables ''basal'' = Some []
   \<and> readings_tables ''step'' = Some []
   \<and> convert_timestamp (\<lambda>text fmt. None :: datetime option) (DataFrame ([] :: (rat, datetime) row list)) = Inr []"
  using absent_section [where ET_parse = "parse_in example_files" and xml_file_path = "''readings.xml''"
        and py_float = decimal_float and strptime = padded_strptime and c = Basal
        and any_strptime = "\<lambda>text fmt. None :: datetime option", OF parse_example_files(2)]
    absent_section [where ET_parse = "parse_in example_files" and xml_file_path = "''readings.xml''"
        and py_float = decimal_float and strptime = padded_strptime and c = Basis_steps
        and any_strptime = "\<lambda>text fmt. None :: datetime option", OF parse_example_files(2)]
  by (simp add: readings_run find_child_def findall_def readings_document_def readings_tables_def
      convert_timestamp_def DataFrame_def empty_def)

text \<open>
  C8. The loader is all or nothing. If the file cannot be parsed it raises; otherwise,
  if every category has a frame by the schema, it returns the dictionary of all six
  frames, each holding the rows of all its events; otherwise it raises and returns
  no dictionary. One event with a field without a value, in any category, makes the
  loader raise, whatever the other categories contain.
\<close>

theorem all_or_nothing:
  "(case ET_parse xml_file_path of
      Inl err \<Rightarrow> load_ohiot1dm_xml ET_parse py_float strptime xml_file_path = Inl err
    | Inr xml_root \<Rightarrow>
        (if \<forall>c. expected_table py_float strptime xml_root c \<noteq> None
         then \<exists>m. load_ohiot1dm_xml ET_parse py_float strptime xml_file_path = Inr m
                \<and> dom m = {''glucose_level'', ''basal'', ''tempbasal'', ''bolus'', ''meal'', ''step''}
                \<and> (\<forall>c. m (result_key c) = expected_table py_float strptime xml_root c)
         else \<exists>err. load_ohiot1dm_xml ET_parse py_float strptime xml_file_path = Inl err))
   \<and> (\<forall>xml_root c e. ET_parse xml_file_path = Inr xml_root \<and> e \<in> set (events xml_root c)
          \<and> expected_row py_float strptime c e = None
        \<longrightarrow> (\<exists>err. load_ohiot1dm_xml ET_parse py_float strptime xml_file_path = Inl err))"
proof (intro conjI allI impI)
  show "case ET_parse xml_file_path of
      Inl err \<Rightarrow> load_ohiot1dm_xml ET_parse py_float strptime xml_file_path = Inl err
    | Inr xml_root \<Rightarrow>
        (if \<forall>c. expected_table py_float strptime xml_root c \<noteq> None
         then \<exists>m. load_ohiot1dm_xml ET_parse py_float strptime xml_file_path = Inr m
                \<and> dom m = {''glucose_level'', ''basal'', ''tempbasal'', ''bolus'', ''meal'', ''step''}
                \<and> (\<forall>c. m (result_key c) = expected_table py_float strptime xml_root c)
         else \<exists>err. load_ohiot1dm_xml ET_parse py_float strptime xml_file_path = Inl err)"
  proof (cases "ET_parse xml_file_path")
    case (Inl err)
    then show ?thesis by (simp add: load_ohiot1dm_xml_def and_then_def)
  next
    case (Inr xml_root)
    show ?thesis
    proof (cases "\<forall>c. expected_table py_float strptime xml_root c \<noteq> None")
      case True
      then obtain m where m: "load_ohiot1dm_xml ET_parse py_float strptime xml_file_path = Inr m"
        unfolding load_succeeds_iff [where ET_parse = ET_parse and xml_file_path = xml_file_path, OF Inr, symmetric]
        by blast
      have "m (result_key c) = expected_table py_float strptime xml_root c" for c
        using load_Inr_table [where ET_parse = ET_parse and xml_file_path = xml_file_path, OF Inr m, of c]
        by auto
      with m load_Inr_dom [OF m]
      have "\<exists>m. load_ohiot1dm_xml ET_parse py_float strptime xml_file_path = Inr m
                \<and> dom m = {''glucose_level'', ''basal'', ''tempbasal'', ''bolus'', ''meal'', ''step''}
                \<and> (\<forall>c. m (result_key c) = expected_table py_float strptime xml_root c)"
        by blast
      then show ?thesis
        unfolding Inr sum.case if_P [OF True] .
    next
      case False
      then have "\<exists>err. load_ohiot1dm_xml ET_parse py_float strptime xml_file_path = Inl err"
        unfolding load_fails_iff [where ET_parse = ET_parse and xml_file_path = xml_file_path, OF Inr]
        by simp
      then show ?thesis
        unfolding Inr sum.case if_not_P [OF False] .
    qed
  qed
next
  fix xml_root c e
  assume a: "ET_parse xml_file_path = Inr xml_root \<and> e \<in> set (events xml_root c)
          \<and> expected_row py_float strptime c e = None"
  then have "expected_table py_float strptime xml_root c = None"
    unfolding expected_table_None_iff by blast
  with a show "\<exists>err. load_ohiot1dm_xml ET_parse py_float strptime xml_file_path = Inl err"
    using load_fails_iff [where ET_parse = ET_parse and xml_file_path = xml_file_path
        and xml_root = xml_root and py_float = py_float and strptime = strptime]
    by blast
qed

theorem all_or_nothing_witness:
  "expected_table decimal_float padded_strptime bad_dose_document Glucose_level =
     Some [[(''timestamp'', Timestamp \<lparr>year = 2021, month = 1, day = 1, hour = 0, minute = 0, second = 0\<rparr>),
            (''value'', PyFloat (241 / 2))]]
   \<and> expected_table decimal_float padded_strptime bad_dose_document Bolus = None
   \<and> example_load ''bad_dose.xml'' = Inl ValueError
   \<and> example_load ''missing.xml'' = Inl OSError
   \<and> example_load ''minimal.xml'' = Inr minimal_tables
   \<and> dom minimal_tables = {''glucose_level'', ''basal'', ''tempbasal'', ''bolus'', ''meal'', ''step''}"
proof -
  have tables: "expected_table decimal_float padded_strptime bad_dose_document Glucose_level =
     Some [[(''timestamp'', Timestamp \<lparr>year = 2021, month = 1, day = 1, hour = 0, minute = 0, second = 0\<rparr>),
            (''value'', PyFloat (241 / 2))]]"
    "expected_table decimal_float padded_strptime bad_dose_document Bolus = None"
    by (simp_all add: expected_table_def expected_row_def events_defs bad_dose_document_def parser_defs)
  have bad: "\<not> (\<forall>c. expected_table decimal_float padded_strptime bad_dose_document c \<noteq> None)"
    using tables(2) by blast
  from all_or_nothing [where ET_parse = "parse_in example_files" and xml_file_path = "''bad_dose.xml''"
        and py_float = decimal_float and strptime = padded_strptime]
  have "\<exists>err. example_load ''bad_dose.xml'' = Inl err"
    by (simp add: parse_example_files bad del: not_all not_None_eq) (simp add: example_load_def)
  then show ?thesis
    by (simp add: tables bad_dose_run missing_file_run minimal_run) (simp add: minimal_tables_def insert_commute)
qed

text \<open>
  C6. When the children of the root contain a section with a category's tag and no
  earlier child has that tag, \<^verbatim>\<open>root.find\<close> locates that section, the events of
  the category are its \<^verbatim>\<open>event\<close> children, and every later child with the same
  tag is ignored: the loader behaves on the document exactly as on the document without
  them, and the frame of the category holds the rows of the first section's events only.
  A document with two \<^verbatim>\<open>meal\<close> sections of one event each yields a meal frame of
  one row, the row of the first section's event.
\<close>

theorem first_section_wins:
  assumes "\<forall>x\<in>set pre. tag x \<noteq> tag s1"
    and "tag s1 = section_name c"
    and "ET_parse xml_file_path = Inr (Element t a (pre @ s1 # post))"
    and "ET_parse' xml_file_path' = Inr (Element t a (pre @ s1 # filter (\<lambda>x. tag x \<noteq> tag s1) post))"
  shows "find_child (Element t a (pre @ s1 # post)) (section_name c) = Some s1
       \<and> events (Element t a (pre @ s1 # post)) c = findall s1 ''event''
       \<and> load_ohiot1dm_xml ET_parse py_float strptime xml_file_path =
           load_ohiot1dm_xml ET_parse' py_float strptime xml_file_path'
       \<and> (\<forall>m. load_ohiot1dm_xml ET_parse py_float strptime xml_file_path = Inr m
             \<longrightarrow> (\<exists>df. m (result_key c) = Some df
                     \<and> map Some df = map (expected_row py_float strptime c) (findall s1 ''event'')))"
proof (intro conjI allI impI)
  show f: "find_child (Element t a (pre @ s1 # post)) (section_name c) = Some s1"
    using assms(1,2) by (simp add: find_child_def find_first_skip)
  then show e: "events (Element t a (pre @ s1 # post)) c = findall s1 ''event''"
    by (simp add: events_def)
  show "load_ohiot1dm_xml ET_parse py_float strptime xml_file_path =
        load_ohiot1dm_xml ET_parse' py_float strptime xml_file_path'"
    by (rule load_cong [where ET_parse = ET_parse and ET_parse' = ET_parse', OF assms(3,4)])
       (simp add: find_child_def find_first_drop_later)
  fix m
  assume m: "load_ohiot1dm_xml ET_parse py_float strptime xml_file_path = Inr m"
  from load_Inr_row [where ET_parse = ET_parse and xml_file_path = xml_file_path, OF assms(3) m, of c]
  obtain df where df: "m (result_key c) = Some df" "length df = length (findall s1 ''event'')"
    "\<forall>i<length df. expected_row py_float strptime c (findall s1 ''event'' ! i) = Some (df ! i)"
    unfolding e by blast
  then have "map Some df = map (expected_row py_float strptime c) (findall s1 ''event'')"
    by (simp add: list_eq_iff_nth_eq)
  with df(1) show "\<exists>df. m (result_key c) = Some df
      \<and> map Some df = map (expected_row py_float strptime c) (findall s1 ''event'')"
    by blast
qed

theorem first_section_wins_witness:
  "two_meals_document =
     Element ''patient'' [(''id'', ''559'')]
      ([] @ Element ''meal'' []
              [ev [(''ts'', ''07-12-2021 08:00:00''), (''type'', ''Breakfast''), (''carbs'', ''45'')]]
          # [Element ''basal'' [] [ev [(''ts'', ''07-12-2021 00:00:00''), (''value'', ''1.25'')]],
             Element ''meal'' []
              [ev [(''ts'', ''07-12-2021 19:30:00''), (''type'', ''Dinner''), (''carbs'', ''80'')]]])
   \<and> events two_meals_document Meal =
       [ev [(''ts'', ''07-12-2021 08:00:00''), (''type'', ''Breakfast''), (''carbs'', ''45'')]]
   \<and> example_load ''two_meals.xml'' = Inr two_meals_tables
   \<and> two_meals_tables ''meal'' =
       Some [[(''timestamp'', Timestamp \<lparr>year = 2021, month = 12, day = 7, hour = 8, minute = 0, second = 0\<rparr>),
              (''type'', PyStr ''Breakfast''), (''carbs'', PyFloat 45)]]
   \<and> map_option length (two_meals_tables ''meal'') = Some 1
   \<and> load_ohiot1dm_xml
        (\<lambda>path. Inr (Element ''patient'' [(''id'', ''559'')]
           [Element ''meal'' []
              [ev [(''ts'', ''07-12-2021 08:00:00''), (''type'', ''Breakfast''), (''carbs'', ''45'')]],
            Element ''basal'' [] [ev [(''ts'', ''07-12-2021 00:00:00''), (''value'', ''1.25'')]]]))
        decimal_float padded_strptime ''one_meal.xml'' = Inr two_meals_tables"
  using first_section_wins [where pre = "[]"
      and ?s1.0 = "Element ''meal'' []
              [ev [(''ts'', ''07-12-2021 08:00:00''), (''type'', ''Breakfast''), (''carbs'', ''45'')]]"
      and post = "[Element ''basal'' [] [ev [(''ts'', ''07-12-2021 00:00:00''), (''value'', ''1.25'')]],
             Element ''meal'' []
              [ev [(''ts'', ''07-12-2021 19:30:00''), (''type'', ''Dinner''), (''carbs'', ''80'')]]]"
      and c = Meal and t = "''patient''" and a = "[(''id'', ''559'')]"
      and ET_parse = "parse_in example_files" and xml_file_path = "''two_meals.xml''"
      and ET_parse' = "\<lambda>path. Inr (Element ''patient'' [(''id'', ''559'')]
           [Element ''meal'' []
              [ev [(''ts'', ''07-12-2021 08:00:00''), (''type'', ''Breakfast''), (''carbs'', ''45'')]],
            Element ''basal'' [] [ev [(''ts'', ''07-12-2021 00:00:00''), (''value'', ''1.25'')]]])"
      and xml_file_path' = "''one_meal.xml''"
      and py_float = decimal_float and strptime = padded_strptime]
  by (simp add: parse_example_files two_meals_run [unfolded example_load_def] two_meals_run)
     (simp add: two_meals_document_def two_meals_tables_def events_defs)

text \<open>
  C10. When an event lacks a string attribute or a timestamp attribute of its category,
  the record of the event is still built, with \<^verbatim>\<open>None\<close> in that field, as long as
  its numeric attributes go through \<^verbatim>\<open>float\<close>; \<^verbatim>\<open>pd.to_datetime\<close> turns a
  \<^verbatim>\<open>None\<close> cell into \<^verbatim>\<open>NaT\<close> without raising; in the returned frame the field is
  \<^verbatim>\<open>None\<close> for a string and \<^verbatim>\<open>NaT\<close> for a timestamp; and the loader returns
  whenever every numeric attribute and every attribute that is present has a value,
  whatever string and timestamp attributes are absent.
\<close>

theorem missing_text_or_time_is_null:
  fixes py_float :: "string \<Rightarrow> 'f option" and strptime :: "string \<Rightarrow> string \<Rightarrow> 't option"
  assumes "ET_parse xml_file_path = Inr xml_root"
    and "(col, attr, k) \<in> set (schema c)"
    and "k \<noteq> Numeric"
    and "i < length (events xml_root c)"
    and "get (events xml_root c ! i) attr = None"
  shows "((\<forall>col' attr'. (col', attr', Numeric) \<in> set (schema c)
             \<longrightarrow> (\<exists>v. float py_float (get (events xml_root c ! i) attr') = Inr v))
          \<longrightarrow> (\<exists>r :: ('f, 't) row. record_of c py_float (events xml_root c ! i) = Inr r
                  \<and> map_of r col = Some PyNone))
       \<and> to_datetime_cell strptime timestamp_format (PyNone :: ('f, 't) pyval) = Inr NaT
       \<and> (\<forall>m. load_ohiot1dm_xml ET_parse py_float strptime xml_file_path = Inr m
             \<longrightarrow> (\<exists>df. m (result_key c) = Some df \<and> i < length df
                     \<and> map_of (df ! i) col = Some (if k = Time then NaT else PyNone)))
       \<and> ((\<forall>c' e' col' attr' k'. e' \<in> set (events xml_root c') \<and> (col', attr', k') \<in> set (schema c')
                \<and> (k' = Numeric \<or> get e' attr' \<noteq> None)
              \<longrightarrow> field_cell py_float strptime e' attr' k' \<noteq> None)
          \<longrightarrow> (\<exists>m. load_ohiot1dm_xml ET_parse py_float strptime xml_file_path = Inr m))"
proof (intro conjI allI impI)
  assume "\<forall>col' attr'. (col', attr', Numeric) \<in> set (schema c)
             \<longrightarrow> (\<exists>v. float py_float (get (events xml_root c ! i) attr') = Inr v)"
  then obtain r :: "('f, 't) row" where r: "record_of c py_float (events xml_root c ! i) = Inr r"
    using record_of_Inr by blast
  from record_of_null [OF assms(2,3) r] assms(5) have "map_of r col = Some PyNone"
    by (simp add: pyval_of_def)
  with r show "\<exists>r :: ('f, 't) row. record_of c py_float (events xml_root c ! i) = Inr r
      \<and> map_of r col = Some PyNone"
    by blast
next
  show "to_datetime_cell strptime timestamp_format (PyNone :: ('f, 't) pyval) = Inr NaT" by simp
next
  fix m
  assume m: "load_ohiot1dm_xml ET_parse py_float strptime xml_file_path = Inr m"
  from load_Inr_row [where ET_parse = ET_parse and xml_file_path = xml_file_path, OF assms(1) m, of c] assms(4)
  obtain df where df: "m (result_key c) = Some df" "length df = length (events xml_root c)"
    and row: "expected_row py_float strptime c (events xml_root c ! i) = Some (df ! i)"
    by (metis (no_types, lifting))
  have "map_of (df ! i) col = field_cell py_float strptime (events xml_root c ! i) attr k"
    by (rule expected_row_map_of [OF row assms(2)])
  also have "\<dots> = Some (if k = Time then NaT else PyNone)"
    by (rule field_cell_absent [OF assms(3,5)])
  finally have "map_of (df ! i) col = Some (if k = Time then NaT else PyNone)" .
  with df assms(4) show "\<exists>df. m (result_key c) = Some df \<and> i < length df
      \<and> map_of (df ! i) col = Some (if k = Time then NaT else PyNone)"
    by auto
next
  assume a: "\<forall>c' e' col' attr' k'. e' \<in> set (events xml_root c') \<and> (col', attr', k') \<in> set (schema c')
                \<and> (k' = Numeric \<or> get e' attr' \<noteq> None)
              \<longrightarrow> field_cell py_float strptime e' attr' k' \<noteq> None"
  have "expected_table py_float strptime xml_root c' \<noteq> None" for c'
  proof
    assume "expected_table py_float strptime xml_root c' = None"
    then obtain e' col' attr' k' where e': "e' \<in> set (events xml_root c')"
      and f: "(col', attr', k') \<in> set (schema c')"
      and n: "field_cell py_float strptime e' attr' k' = None"
      unfolding expected_table_None_iff expected_row_None_iff by blast
    show False
    proof (cases "k' = Numeric \<or> get e' attr' \<noteq> None")
      case True
      with a e' f n show False by blast
    next
      case False
      then have "field_cell py_float strptime e' attr' k' \<noteq> None"
        using field_cell_absent [of k' e' attr' py_float strptime] by simp
      with n show False by simp
    qed
  qed
  then show "\<exists>m. load_ohiot1dm_xml ET_parse py_float strptime xml_file_path = Inr m"
    unfolding load_succeeds_iff [where ET_parse = ET_parse and xml_file_path = xml_file_path, OF assms(1)]
    by blast
qed

theorem missing_text_or_time_is_null_witness:
  "events sparse_document Meal ! 0 = ev [(''carbs'', ''45'')]
   \<and> get (ev [(''carbs'', ''45'')]) ''ts'' = None
   \<and> get (ev [(''carbs'', ''45'')]) ''type'' = None
   \<and> meal_record decimal_float (ev [(''carbs'', ''45'')]) =
       (Inr [(''timestamp'', PyNone), (''type'', PyNone), (''carbs'', PyFloat 45)] :: error + (rat, datetime) row)
   \<and> example_load ''sparse.xml'' = Inr sparse_tables
   \<and> map_option (\<lambda>df. map_of (df ! 0) ''timestamp'') (sparse_tables ''meal'') = Some (Some NaT)
   \<and> map_option (\<lambda>df. map_of (df ! 0) ''type'') (sparse_tables ''meal'') = Some (Some PyNone)"
proof -
  have ev0: "events sparse_document Meal ! 0 = ev [(''carbs'', ''45'')]"
    by (simp add: events_defs sparse_document_def)
  have len: "0 < length (events sparse_document Meal)"
    by (simp add: events_defs sparse_document_def)
  have none: "get (events sparse_document Meal ! 0) ''ts'' = None"
    "get (events sparse_document Meal ! 0) ''type'' = None"
    by (simp_all add: events_defs sparse_document_def)
  have rec: "meal_record decimal_float (ev [(''carbs'', ''45'')]) =
       (Inr [(''timestamp'', PyNone), (''type'', PyNone), (''carbs'', PyFloat 45)] :: error + (rat, datetime) row)"
    by (simp add: meal_record_def float_def get_def ev_def pyval_of_def decimal_float_def unsigned_decimal_def
        digit_def)
  have mem: "(''timestamp'', ''ts'', Time) \<in> set (schema Meal)" "(''type'', ''type'', Text) \<in> set (schema Meal)"
    by simp_all
  have kinds: "Time \<noteq> Numeric" "Text \<noteq> Numeric"
    by simp_all
  from missing_text_or_time_is_null [where ET_parse = "parse_in example_files"
      and xml_file_path = "''sparse.xml''" and py_float = decimal_float and strptime = padded_strptime
      and c = Meal and col = "''timestamp''" and attr = "''ts''" and k = Time and i = 0,
      OF parse_example_files(4) mem(1) kinds(1) len none(1)]
    missing_text_or_time_is_null [where ET_parse = "parse_in example_files"
      and xml_file_path = "''sparse.xml''" and py_float = decimal_float and strptime = padded_strptime
      and c = Meal and col = "''type''" and attr = "''type''" and k = Text and i = 0,
      OF parse_example_files(4) mem(2) kinds(2) len none(2)]
  have "(\<exists>df. sparse_tables ''meal'' = Some df \<and> map_of (df ! 0) ''timestamp'' = Some NaT)
      \<and> (\<exists>df. sparse_tables ''meal'' = Some df \<and> map_of (df ! 0) ''type'' = Some PyNone)"
    by (auto simp: sparse_run [unfolded example_load_def])
  then show ?thesis
    using ev0 none rec by (auto simp: sparse_run)
qed

end
